theory Spec2Isabelle
  imports Complex_Main
begin

section \<open>The points wrapper of the Houdini plug-in: data model\<close>

text \<open>
  The translation unit \<^verbatim>\<open>third_party/houdini/lib/gusd/pointsWrapper.cpp\<close> adapts a
  typed point-cloud prim of the scene description to the host's generic attribute lists
  (\<^verbatim>\<open>refine\<close>) and back (\<^verbatim>\<open>updateFromGTPrim\<close>). Objects of the two libraries
  are records of what this file observes of them; calls into the base class
  \<^verbatim>\<open>GusdPrimWrapper\<close>, whose bodies are in another translation unit, are function
  parameters where their result is used and entries of a call log where only their
  arguments matter.
\<close>

subsection \<open>Floating point\<close>

text \<open>
  The read path computes \<^verbatim>\<open>vtFloatArray[i] * .5\<close>: the float is widened to a double,
  multiplied by the double \<^verbatim>\<open>.5\<close> and narrowed when it is stored through the
  \<^verbatim>\<open>fpreal32\<close> pointer. The write path computes
  \<^verbatim>\<open>std::multiplies<fpreal32>()(2.0, x)\<close>, a product of two \<^verbatim>\<open>fpreal32\<close> values.
  The blocks below take the six operations involved as a record, with \<^verbatim>\<open>fpreal32\<close>
  values of type \<open>'f\<close> and \<^verbatim>\<open>double\<close> values of type \<open>'d\<close>; \<open>ieee754\<close> further down is
  the arithmetic of the machine.
\<close>

record ('f, 'd) fp_ops =
  widen :: "'f \<Rightarrow> 'd"
  narrow :: "'d \<Rightarrow> 'f"
  dmul :: "'d \<Rightarrow> 'd \<Rightarrow> 'd"
  fmul :: "'f \<Rightarrow> 'f \<Rightarrow> 'f"
  d_half :: "'d"
  f_two :: "'f"

text \<open>
  A binary floating-point value: not a number, an infinity with its sign, or a finite
  value with a sign \<open>s\<close>, a significand \<open>m\<close> and an exponent \<open>e\<close>, of magnitude \<open>m\<close> times
  2 to the power \<open>e\<close> and negative when \<open>s\<close> holds. A value may have several such
  representations; \<open>valof\<close> is the number it denotes.
\<close>

datatype ieee = NaN | Infinity bool | Finite bool nat int

fun valof :: "ieee \<Rightarrow> real" where
  "valof (Finite s m e) = (if s then - 1 else 1) * real m * 2 powi e"
| "valof x = 0"

text \<open>A format: the number of significand bits, the exponent of the least positive
  value and the exponent of the last place of the greatest finite value.\<close>

record fp_format =
  precision :: nat
  emin :: int
  emax :: int

definition binary32 :: fp_format where
  "binary32 = \<lparr>precision = 24, emin = - 149, emax = 104\<rparr>"

definition binary64 :: fp_format where
  "binary64 = \<lparr>precision = 53, emin = - 1074, emax = 971\<rparr>"

text \<open>The \<^verbatim>\<open>fpreal32\<close> values among the representations.\<close>

fun is_binary32 :: "ieee \<Rightarrow> bool" where
  "is_binary32 (Finite s m e) = (m < 2 ^ 24 \<and> - 149 \<le> e \<and> e \<le> 104)"
| "is_binary32 x = True"

text \<open>The number of binary digits of a significand.\<close>

fun bitlength :: "nat \<Rightarrow> nat" where
  "bitlength n = (if n = 0 then 0 else Suc (bitlength (n div 2)))"

declare bitlength.simps [simp del]

text \<open>The quotient of \<open>m\<close> by 2 to the power \<open>k\<close>, rounded to the nearest whole number and
  at a tie to the even one: the rounding mode in which the program runs.\<close>

definition round_nearest_even :: "nat \<Rightarrow> nat \<Rightarrow> nat" where
  "round_nearest_even m k =
     (let q = m div 2 ^ k; r = m mod 2 ^ k
      in if 2 ^ k < 2 * r \<or> (2 * r = 2 ^ k \<and> odd q) then q + 1 else q)"

text \<open>The exact value of significand \<open>m\<close>, exponent \<open>e\<close> and sign \<open>s\<close> rounded into a
  format: as many low bits are rounded away as the precision and the least exponent
  demand, and a result beyond the greatest finite value is the infinity.\<close>

definition round_to :: "fp_format \<Rightarrow> bool \<Rightarrow> nat \<Rightarrow> int \<Rightarrow> ieee" where
  "round_to F s m e =
     (let shift = nat (max (int (bitlength m) - int (precision F)) (emin F - e));
          q = round_nearest_even m shift;
          e' = e + int shift
      in if int (precision F) + emax F < int (bitlength q) + e' then Infinity s
         else Finite s q e')"

text \<open>The product of two values in a format, and the conversion of a value to a
  format.\<close>

fun fp_mul :: "fp_format \<Rightarrow> ieee \<Rightarrow> ieee \<Rightarrow> ieee" where
  "fp_mul F NaN b = NaN"
| "fp_mul F (Infinity s) NaN = NaN"
| "fp_mul F (Finite s m e) NaN = NaN"
| "fp_mul F (Infinity s) (Infinity t) = Infinity (s \<noteq> t)"
| "fp_mul F (Infinity s) (Finite t n f) = (if n = 0 then NaN else Infinity (s \<noteq> t))"
| "fp_mul F (Finite s m e) (Infinity t) = (if m = 0 then NaN else Infinity (s \<noteq> t))"
| "fp_mul F (Finite s m e) (Finite t n f) = round_to F (s \<noteq> t) (m * n) (e + f)"

fun fp_convert :: "fp_format \<Rightarrow> ieee \<Rightarrow> ieee" where
  "fp_convert F NaN = NaN"
| "fp_convert F (Infinity s) = Infinity s"
| "fp_convert F (Finite s m e) = round_to F s m e"

text \<open>
  The arithmetic of the machine: \<^verbatim>\<open>fpreal32\<close> is binary32 and \<^verbatim>\<open>double\<close> is binary64.
  The literal \<^verbatim>\<open>.5\<close> is the double with significand 1 and exponent -1; the literal
  \<^verbatim>\<open>2.0\<close> is the double with significand 1 and exponent 1, converted to
  \<^verbatim>\<open>fpreal32\<close> where it is bound as the first argument of
  \<^verbatim>\<open>std::multiplies<fpreal32>\<close>.
\<close>

definition ieee754 :: "(ieee, ieee) fp_ops" where
  "ieee754 =
     \<lparr>widen = fp_convert binary64, narrow = fp_convert binary32, dmul = fp_mul binary64,
      fmul = fp_mul binary32, d_half = Finite False 1 (- 1),
      f_two = fp_convert binary32 (Finite False 1 1)\<rparr>"

type_synonym 'f GfVec3f = "'f \<times> 'f \<times> 'f"

subsection \<open>Host side: data arrays, attribute lists, primitives\<close>

datatype GT_Type = GT_TYPE_NONE | GT_TYPE_POINT | GT_TYPE_NORMAL | GT_TYPE_VECTOR

datatype GT_Owner =
  GT_OWNER_VERTEX | GT_OWNER_POINT | GT_OWNER_UNIFORM | GT_OWNER_CONSTANT | GT_OWNER_INVALID

text \<open>
  A \<^verbatim>\<open>GT_DataArray\<close>: its type tag, its tuple size and its numeric components, tuple
  after tuple.
\<close>

record 'f GT_DataArray =
  da_type :: GT_Type
  da_tupleSize :: nat
  da_data :: "'f list"

definition getTupleSize :: "'f GT_DataArray \<Rightarrow> nat" where
  "getTupleSize a = da_tupleSize a"

definition entries :: "'f GT_DataArray \<Rightarrow> nat" where
  "entries a = length (da_data a) div da_tupleSize a"

text \<open>\<^verbatim>\<open>fillArray(data, start, length, tsize)\<close>: the first \<open>tsize\<close> components of each
  of \<open>length\<close> tuples from \<open>start\<close> on.\<close>

definition fillArray :: "'f GT_DataArray \<Rightarrow> nat \<Rightarrow> nat \<Rightarrow> nat \<Rightarrow> 'f list" where
  "fillArray a start len tsize =
     concat (map (\<lambda>i. take tsize (drop (i * da_tupleSize a) (da_data a))) [start ..< start + len])"

text \<open>\<^verbatim>\<open>new GusdGT_VtArray<GfVec3f>(array, type)\<close>\<close>

definition GusdGT_VtArray :: "'f GfVec3f list \<Rightarrow> GT_Type \<Rightarrow> 'f GT_DataArray" where
  "GusdGT_VtArray array ty =
     \<lparr>da_type = ty, da_tupleSize = 3, da_data = concat (map (\<lambda>(x, y, z). [x, y, z]) array)\<rparr>"

text \<open>\<^verbatim>\<open>new GT_Real32Array(data, entries, tupleSize)\<close>\<close>

definition GT_Real32Array :: "'f list \<Rightarrow> nat \<Rightarrow> nat \<Rightarrow> 'f GT_DataArray" where
  "GT_Real32Array vals n tsize =
     \<lparr>da_type = GT_TYPE_NONE, da_tupleSize = tsize, da_data = take (n * tsize) vals\<rparr>"

text \<open>A \<^verbatim>\<open>GT_AttributeList\<close> with its map: names and their data arrays, in order.\<close>

type_synonym 'f GT_AttributeList = "(string \<times> 'f GT_DataArray) list"

fun addAttribute ::
  "string \<Rightarrow> 'f GT_DataArray \<Rightarrow> bool \<Rightarrow> 'f GT_AttributeList \<Rightarrow> 'f GT_AttributeList" where
  "addAttribute name d replace_existing [] = [(name, d)]"
| "addAttribute name d replace_existing ((k, v) # rest) =
     (if k = name then (if replace_existing then (k, d) # rest else (k, v) # rest)
      else (k, v) # addAttribute name d replace_existing rest)"

definition getAttr :: "'f GT_AttributeList \<Rightarrow> string \<Rightarrow> 'f GT_DataArray option" where
  "getAttr attrs name = map_of attrs name"

text \<open>\<^verbatim>\<open>new GT_PrimPointMesh(points, detail)\<close>; a handle that is null is \<open>None\<close>.\<close>

datatype 'f GT_PrimPointMesh =
  GT_PrimPointMesh "'f GT_AttributeList option" "'f GT_AttributeList option"

record GT_RefineParms =
  packedViewportLOD :: bool

text \<open>\<^verbatim>\<open>GT_GEOPrimPacked::useViewportLOD(parms)\<close>, with \<open>parms\<close> a pointer that may be
  null.\<close>

definition useViewportLOD :: "GT_RefineParms option \<Rightarrow> bool" where
  "useViewportLOD parms = (case parms of None \<Rightarrow> False | Some p \<Rightarrow> packedViewportLOD p)"

subsection \<open>Scene-description side: attributes, the points schema, the stage\<close>

text \<open>
  A valid \<^verbatim>\<open>UsdAttribute\<close>: whether it has an authored value opinion, and the value
  \<^verbatim>\<open>Get\<close> resolves at a time, if any. An invalid attribute handle is \<open>None\<close>.
\<close>

record ('a, 't) UsdAttribute =
  HasAuthoredValueOpinion :: bool
  resolve :: "'t \<Rightarrow> 'a option"

text \<open>\<^verbatim>\<open>attr.Get(&value, time)\<close> with the returned flag dropped, as every call of this
  file does: the new content of \<open>value\<close>. The body of \<^verbatim>\<open>Get\<close> belongs to the scene
  description library and is not among these sources; a call that resolves nothing is
  taken to leave \<open>value\<close> as it was.\<close>

definition Get :: "('a, 't) UsdAttribute \<Rightarrow> 'a \<Rightarrow> 't \<Rightarrow> 'a" where
  "Get attr val t = (case resolve attr t of None \<Rightarrow> val | Some v \<Rightarrow> v)"

record ('f, 't) UsdGeomPoints =
  IsValid :: bool
  GetPath :: string
  attr_points :: "('f GfVec3f list, 't) UsdAttribute option"
  attr_normals :: "('f GfVec3f list, 't) UsdAttribute option"
  attr_velocities :: "('f GfVec3f list, 't) UsdAttribute option"
  attr_widths :: "('f list, 't) UsdAttribute option"

text \<open>The attribute accessors of the schema, whose bodies are not among these sources
  either: on an invalid schema object they give an invalid attribute.\<close>

definition GetPointsAttr ::
  "('f, 't) UsdGeomPoints \<Rightarrow> ('f GfVec3f list, 't) UsdAttribute option" where
  "GetPointsAttr p = (if IsValid p then attr_points p else None)"

definition GetNormalsAttr ::
  "('f, 't) UsdGeomPoints \<Rightarrow> ('f GfVec3f list, 't) UsdAttribute option" where
  "GetNormalsAttr p = (if IsValid p then attr_normals p else None)"

definition GetVelocitiesAttr ::
  "('f, 't) UsdGeomPoints \<Rightarrow> ('f GfVec3f list, 't) UsdAttribute option" where
  "GetVelocitiesAttr p = (if IsValid p then attr_velocities p else None)"

definition GetWidthsAttr ::
  "('f, 't) UsdGeomPoints \<Rightarrow> ('f list, 't) UsdAttribute option" where
  "GetWidthsAttr p = (if IsValid p then attr_widths p else None)"

text \<open>
  A stage, as far as \<^verbatim>\<open>initUsdPrim\<close> uses it: the points schema object that
  \<^verbatim>\<open>UsdGeomPoints(stage->OverridePrim(path))\<close> and
  \<^verbatim>\<open>UsdGeomPoints::Define(stage, path)\<close> give for a path.
\<close>

record ('f, 't) UsdStage =
  OverridePrim :: "string \<Rightarrow> ('f, 't) UsdGeomPoints"
  Define :: "string \<Rightarrow> ('f, 't) UsdGeomPoints"

subsection \<open>The wrapper\<close>

text \<open>
  The members of \<^verbatim>\<open>GusdPointsWrapper\<close>: the read holder, the write schema object, the
  time of the base class, and the caches of the base class, which only the base class
  touches.
\<close>

record ('f, 't, 'k) GusdPointsWrapper =
  m_time :: 't
  m_usdPointsForRead :: "('f, 't) UsdGeomPoints"
  m_usdPointsForWrite :: "('f, 't) UsdGeomPoints"
  m_caches :: 'k

definition isValid :: "('f, 't, 'k) GusdPointsWrapper \<Rightarrow> bool" where
  "isValid w = (IsValid (m_usdPointsForWrite w) \<or> IsValid (m_usdPointsForRead w))"

section \<open>The read path\<close>

datatype diagnostic =
  InvalidPointAttribute
| NotEnoughValues string string nat nat

text \<open>The four list pointers of \<^verbatim>\<open>loadPrimvars\<close>; a null pointer is \<open>None\<close>.\<close>

record 'f primvar_lists =
  pv_vertex :: "'f GT_AttributeList option"
  pv_point :: "'f GT_AttributeList option"
  pv_primitive :: "'f GT_AttributeList option"
  pv_constant :: "'f GT_AttributeList option"

text \<open>
  \<^verbatim>\<open>GusdPrimWrapper::loadPrimvars(time, parms, minUniform, minPoint, minVertex,
  primPath, vertex, point, primitive, constant)\<close> is a method of the base class. It is a
  parameter of \<open>refine\<close>: from the lists it is handed to the lists it leaves behind.
\<close>

type_synonym ('f, 't) loadPrimvars =
  "'t \<Rightarrow> GT_RefineParms option \<Rightarrow> nat \<Rightarrow> nat \<Rightarrow> nat \<Rightarrow> string \<Rightarrow> 'f primvar_lists \<Rightarrow> 'f primvar_lists"

text \<open>The local variables of \<^verbatim>\<open>refine\<close> that its blocks update, and the warnings
  issued so far.\<close>

record 'f refine_locals =
  vtFloatArray :: "'f list"
  vtVec3Array :: "'f GfVec3f list"
  gtPointAttrs :: "'f GT_AttributeList"
  gtDetailAttrs :: "'f GT_AttributeList"
  warnings :: "diagnostic list"

text \<open>The block \<^verbatim>\<open>// normals\<close>.\<close>

definition refine_normals ::
  "('f, 't) UsdGeomPoints \<Rightarrow> 'f GfVec3f list \<Rightarrow> 't \<Rightarrow> 'f refine_locals \<Rightarrow> 'f refine_locals" where
  "refine_normals points usdPoints t L =
     (case GetNormalsAttr points of
        None \<Rightarrow> L
      | Some normalsAttr \<Rightarrow>
          if HasAuthoredValueOpinion normalsAttr then
            (let L1 = L\<lparr>vtVec3Array := Get normalsAttr (vtVec3Array L) t\<rparr> in
             if length (vtVec3Array L1) < length usdPoints then
               L1\<lparr>warnings := warnings L1 @
                    [NotEnoughValues ''normals'' (GetPath points)
                       (length usdPoints) (length (vtVec3Array L1))]\<rparr>
             else
               L1\<lparr>gtPointAttrs :=
                    addAttribute ''N'' (GusdGT_VtArray (vtVec3Array L1) GT_TYPE_NORMAL) True
                      (gtPointAttrs L1)\<rparr>)
          else L)"

text \<open>The block \<^verbatim>\<open>// velocities\<close>, on the same buffer \<^verbatim>\<open>vtVec3Array\<close>.\<close>

definition refine_velocities ::
  "('f, 't) UsdGeomPoints \<Rightarrow> 'f GfVec3f list \<Rightarrow> 't \<Rightarrow> 'f refine_locals \<Rightarrow> 'f refine_locals" where
  "refine_velocities points usdPoints t L =
     (case GetVelocitiesAttr points of
        None \<Rightarrow> L
      | Some velAttr \<Rightarrow>
          if HasAuthoredValueOpinion velAttr then
            (let L1 = L\<lparr>vtVec3Array := Get velAttr (vtVec3Array L) t\<rparr> in
             if length (vtVec3Array L1) < length usdPoints then
               L1\<lparr>warnings := warnings L1 @
                    [NotEnoughValues ''velocities'' (GetPath points)
                       (length usdPoints) (length (vtVec3Array L1))]\<rparr>
             else
               L1\<lparr>gtPointAttrs :=
                    addAttribute ''v'' (GusdGT_VtArray (vtVec3Array L1) GT_TYPE_VECTOR) True
                      (gtPointAttrs L1)\<rparr>)
          else L)"

text \<open>The block \<^verbatim>\<open>// widths\<close>; its loop stores \<^verbatim>\<open>vtFloatArray[i] * .5\<close> at every
  index below the size.\<close>

definition halved :: "('f, 'd) fp_ops \<Rightarrow> 'f \<Rightarrow> 'f" where
  "halved fl x = narrow fl (dmul fl (widen fl x) (d_half fl))"

definition refine_widths ::
  "('f, 'd) fp_ops \<Rightarrow> ('f, 't) UsdGeomPoints \<Rightarrow> 'f GfVec3f list \<Rightarrow> 't \<Rightarrow>
   'f refine_locals \<Rightarrow> 'f refine_locals" where
  "refine_widths fl points usdPoints t L =
     (case GetWidthsAttr points of
        None \<Rightarrow> L
      | Some widthsAttr \<Rightarrow>
          if HasAuthoredValueOpinion widthsAttr then
            (let L1 = L\<lparr>vtFloatArray := Get widthsAttr (vtFloatArray L) t\<rparr> in
             if length (vtFloatArray L1) < length usdPoints then
               L1\<lparr>warnings := warnings L1 @
                    [NotEnoughValues ''widths'' (GetPath points)
                       (length usdPoints) (length (vtFloatArray L1))]\<rparr>
             else
               (let s = length (vtFloatArray L1);
                    gtWidths = GT_Real32Array (map (halved fl) (vtFloatArray L1)) s 1
                in L1\<lparr>gtPointAttrs := addAttribute ''pscale'' gtWidths True (gtPointAttrs L1)\<rparr>))
          else L)"

text \<open>The three blocks in the order of the source: what \<^verbatim>\<open>refine\<close> has built when it
  calls \<^verbatim>\<open>loadPrimvars\<close>.\<close>

definition refine_pointAttrs ::
  "('f, 'd) fp_ops \<Rightarrow> ('f, 't) UsdGeomPoints \<Rightarrow> 'f GfVec3f list \<Rightarrow> 't \<Rightarrow>
   'f refine_locals \<Rightarrow> 'f refine_locals" where
  "refine_pointAttrs fl points usdPoints t L =
     refine_widths fl points usdPoints t
       (refine_velocities points usdPoints t (refine_normals points usdPoints t L))"

text \<open>The call of \<^verbatim>\<open>loadPrimvars\<close>: null for the vertex and the primitive list, the
  addresses of \<^verbatim>\<open>gtPointAttrs\<close> and \<^verbatim>\<open>gtDetailAttrs\<close> for the other two.\<close>

definition refine_primvars ::
  "('f, 't) loadPrimvars \<Rightarrow> 't \<Rightarrow> GT_RefineParms option \<Rightarrow> ('f, 't) UsdGeomPoints \<Rightarrow>
   'f GfVec3f list \<Rightarrow> 'f refine_locals \<Rightarrow> 'f primvar_lists" where
  "refine_primvars loadPrimvars t parms points usdPoints L =
     loadPrimvars t parms 0 (length usdPoints) 0 (GetPath points)
       \<lparr>pv_vertex = None, pv_point = Some (gtPointAttrs L), pv_primitive = None,
        pv_constant = Some (gtDetailAttrs L)\<rparr>"

text \<open>What a call of \<^verbatim>\<open>refine\<close> leaves: the returned flag, the primitives the refiner
  holds, and the warnings issued.\<close>

record 'f refine_result =
  ret :: bool
  refined :: "'f GT_PrimPointMesh list"
  diagnostics :: "diagnostic list"

definition refine ::
  "('f, 'd) fp_ops \<Rightarrow> ('f, 't) loadPrimvars \<Rightarrow> ('f, 't, 'k) GusdPointsWrapper \<Rightarrow>
   GT_RefineParms option \<Rightarrow> 'f GT_PrimPointMesh list \<Rightarrow> 'f refine_result" where
  "refine fl loadPrimvars w parms refiner =
     (if \<not> isValid w then \<lparr>ret = False, refined = refiner, diagnostics = []\<rparr>
      else
        let refineForViewport = useViewportLOD parms;
            points = m_usdPointsForRead w
        in case GetPointsAttr points of
             None \<Rightarrow> \<lparr>ret = False, refined = refiner, diagnostics = [InvalidPointAttribute]\<rparr>
           | Some pointsAttr \<Rightarrow>
               let usdPoints = Get pointsAttr [] (m_time w);
                   gtPoints = GusdGT_VtArray usdPoints GT_TYPE_POINT;
                   L0 = \<lparr>vtFloatArray = [], vtVec3Array = [],
                         gtPointAttrs = addAttribute ''P'' gtPoints True [],
                         gtDetailAttrs = [], warnings = []\<rparr>
               in if \<not> refineForViewport then
                    let L = refine_pointAttrs fl points usdPoints (m_time w) L0;
                        pv = refine_primvars loadPrimvars (m_time w) parms points usdPoints L
                    in \<lparr>ret = True,
                        refined = refiner @ [GT_PrimPointMesh (pv_point pv) (pv_constant pv)],
                        diagnostics = warnings L\<rparr>
                  else
                    \<lparr>ret = True,
                     refined = refiner @
                       [GT_PrimPointMesh (Some (gtPointAttrs L0)) (Some (gtDetailAttrs L0))],
                     diagnostics = warnings L0\<rparr>)"

section \<open>The write path\<close>

subsection \<open>The source primitive and the authoring context\<close>

text \<open>
  The source \<^verbatim>\<open>GT_Primitive\<close>, as far as \<^verbatim>\<open>updateFromGTPrim\<close> asks it.
  \<^verbatim>\<open>findAttribute(name, owner, 0)\<close> returns a handle (null is \<open>None\<close>) and writes the
  owner through a reference: \<open>findAttribute\<close> is the handle, \<open>findAttribute_owner\<close> the
  value the owner variable holds afterwards, given the value it held before.
  \<open>getExtentsArray\<close> is \<^verbatim>\<open>GusdGT_Utils::getExtentsArray(sourcePrim)\<close>.
\<close>

record 'f GT_Primitive =
  findAttribute :: "string \<Rightarrow> 'f GT_DataArray option"
  findAttribute_owner :: "string \<Rightarrow> GT_Owner \<Rightarrow> GT_Owner"
  getPointAttributes :: "'f GT_AttributeList option"
  getDetailAttributes :: "'f GT_AttributeList option"
  getExtentsArray :: "'f GT_DataArray option"

datatype Granularity = ONE_FILE | PER_FRAME

text \<open>The state of a \<^verbatim>\<open>GusdGT_AttrFilter\<close>: one pattern string for each owner, and the
  owners that are active.\<close>

record GusdGT_AttrFilter =
  m_patterns :: "GT_Owner \<Rightarrow> string"
  m_activeOwners :: "GT_Owner list"

record ('f, 't) GusdContext =
  time :: 't
  granularity :: Granularity
  purpose :: string
  attributeFilter :: GusdGT_AttrFilter
  getOverGeo :: "'f GT_Primitive \<Rightarrow> bool"

text \<open>The tokens of \<^verbatim>\<open>UsdGeomTokens\<close> that the file uses.\<close>

definition UsdGeomTokens_default :: string where
  "UsdGeomTokens_default = ''default''"

definition UsdGeomTokens_vertex :: string where
  "UsdGeomTokens_vertex = ''vertex''"

definition UsdGeomTokens_constant :: string where
  "UsdGeomTokens_constant = ''constant''"

subsection \<open>The attribute filter\<close>

text \<open>
  Modelled from the spec: \<^verbatim>\<open>GusdGT_AttrFilter\<close> is defined in another translation unit of
  the repository (\<^verbatim>\<open>GT_Utils\<close>); the spec says that reserved names "are excluded from the
  generic primvar pass-through filter". \<open>appendPattern\<close> appends a blank and the given
  patterns to the pattern string of one owner.
\<close>

definition appendPattern :: "GT_Owner \<Rightarrow> string \<Rightarrow> GusdGT_AttrFilter \<Rightarrow> GusdGT_AttrFilter" where
  "appendPattern owner pattern f =
     f\<lparr>m_patterns := (m_patterns f)(owner := m_patterns f owner @ '' '' @ pattern)\<rparr>"

text \<open>
  Modelled from the spec: \<^verbatim>\<open>setActiveOwners\<close> of the absent \<^verbatim>\<open>GusdGT_AttrFilter\<close>
  replaces the active owners.
\<close>

definition setActiveOwners :: "GT_Owner list \<Rightarrow> GusdGT_AttrFilter \<Rightarrow> GusdGT_AttrFilter" where
  "setActiveOwners owners f = f\<lparr>m_activeOwners := owners\<rparr>"

text \<open>
  Modelled from the spec: the pattern strings of the absent filter are lists of patterns
  separated by blanks, as the two literals of \<^verbatim>\<open>updateFromGTPrim\<close> are. A pattern is a
  name with the wildcards \<open>*\<close> and \<open>?\<close>; a pattern with the prefix \<open>^\<close> excludes the names
  it matches. \<open>split_blank\<close> cuts a string at blanks, \<open>cur\<close> being the pattern read so far.
\<close>

fun split_blank :: "string \<Rightarrow> string \<Rightarrow> string list" where
  "split_blank cur [] = (if cur = [] then [] else [cur])"
| "split_blank cur (c # cs) =
     (if c = CHR '' '' then (if cur = [] then [] else [cur]) @ split_blank [] cs
      else split_blank (cur @ [c]) cs)"

text \<open>Modelled from the spec: the patterns of a pattern string, cut at blanks.\<close>

definition pattern_tokens :: "string \<Rightarrow> string list" where
  "pattern_tokens s = split_blank [] s"

text \<open>Modelled from the spec: whether a name matches one wildcard pattern.\<close>

fun glob :: "string \<Rightarrow> string \<Rightarrow> bool" where
  "glob [] s = (s = [])"
| "glob (p # ps) [] = (p = CHR ''*'' \<and> glob ps [])"
| "glob (p # ps) (c # cs) =
     (if p = CHR ''*'' then glob ps (c # cs) \<or> glob (p # ps) cs
      else (p = CHR ''?'' \<or> p = c) \<and> glob ps cs)"

text \<open>
  Modelled from the spec: \<^verbatim>\<open>multiMatch\<close> of a name against a pattern string. The
  patterns are taken from left to right; a pattern that matches the name includes it, an
  exclusion that matches the name excludes it, and the last one that matches decides.
\<close>

definition multiMatch_step :: "string \<Rightarrow> bool \<Rightarrow> string \<Rightarrow> bool" where
  "multiMatch_step name r tok =
     (case tok of
        [] \<Rightarrow> r
      | c # p \<Rightarrow>
          if c = CHR ''^'' then (if glob p name then False else r)
          else (if glob tok name then True else r))"

text \<open>Modelled from the spec: the match of a name against a whole pattern string, the
  steps above from left to right, starting from no match.\<close>

definition multiMatch :: "string \<Rightarrow> string \<Rightarrow> bool" where
  "multiMatch name patterns = foldl (multiMatch_step name) False (pattern_tokens patterns)"

text \<open>
  Modelled from the spec: \<^verbatim>\<open>GusdGT_AttrFilter::matches\<close>, absent from the sources: a name
  passes the filter when the pattern string of an active owner matches it.
\<close>

definition matches :: "GusdGT_AttrFilter \<Rightarrow> string \<Rightarrow> bool" where
  "matches f attrName = list_ex (\<lambda>owner. multiMatch attrName (m_patterns f owner)) (m_activeOwners f)"

text \<open>
  Modelled from the spec: \<^verbatim>\<open>GusdPrimWrapper::updatePrimvarFromGTPrim(attrs, filter,
  interpolation, time)\<close> is a method of the base class, absent from the sources. By the
  spec the remaining attributes "are mapped to primvars through a name-exclusion
  filter": the names it writes as primvars are the names of the list that the filter
  matches.
\<close>

definition primvarNamesWritten :: "'f GT_AttributeList \<Rightarrow> GusdGT_AttrFilter \<Rightarrow> string list" where
  "primvarNamesWritten attrs f = filter (matches f) (map fst attrs)"

subsection \<open>Calls into the scene description and the base class\<close>

text \<open>The attributes of the write schema object that \<^verbatim>\<open>updateFromGTPrim\<close> fetches.\<close>

datatype UsdGeomPoints_attr =
  ExtentAttr | PurposeAttr | PointsAttr | NormalsAttr | VelocitiesAttr | WidthsAttr

text \<open>
  What \<^verbatim>\<open>updateFromGTPrim\<close> does to the scene description it does through
  \<^verbatim>\<open>UsdAttribute::Set\<close> and through methods of the base class. Each such call is
  an entry of a log, with its arguments; the source primitive, which every call shares,
  is left out.
\<close>

datatype ('f, 't, 'm) usd_call =
  updateAttributeFromGTPrim GT_Owner string "'f GT_DataArray option" UsdGeomPoints_attr 't
| updateTransformFromGTPrim 'm 't bool
| UsdAttribute_Set UsdGeomPoints_attr string
| updateVisibilityFromGTPrim 't
| updatePrimvarFromGTPrim "'f GT_AttributeList" GusdGT_AttrFilter string 't
| GusdPrimWrapper_updateFromGTPrim

text \<open>The schema attribute a call is aimed at, if it is aimed at one.\<close>

fun targets :: "UsdGeomPoints_attr \<Rightarrow> ('f, 't, 'm) usd_call \<Rightarrow> bool" where
  "targets a (updateAttributeFromGTPrim owner name houAttr usdAttr t) = (usdAttr = a)"
| "targets a (UsdAttribute_Set usdAttr v) = (usdAttr = a)"
| "targets a c = False"

text \<open>
  What the write path needs of the base class and of tables defined elsewhere:
  \<^verbatim>\<open>computeTransform\<close> (from the write prim whose parent it takes, the time, the host
  transform and the transform cache to the transform and the cache), the table
  \<^verbatim>\<open>s_ownerToUsdInterp\<close>, the constructor of a filter from a pattern, and the flag
  that \<^verbatim>\<open>GusdPrimWrapper::updateFromGTPrim\<close> returns.
\<close>

record ('f, 't, 'm, 'c) GusdPrimWrapper =
  computeTransform :: "('f, 't) UsdGeomPoints \<Rightarrow> 't \<Rightarrow> 'm \<Rightarrow> 'c \<Rightarrow> 'm \<times> 'c"
  s_ownerToUsdInterp :: "GT_Owner \<Rightarrow> string"
  GusdGT_AttrFilter_new :: "string \<Rightarrow> GusdGT_AttrFilter"
  base_updateFromGTPrim :: "'f GT_Primitive \<Rightarrow> 'm \<Rightarrow> ('f, 't) GusdContext \<Rightarrow> 'c \<Rightarrow> bool"

subsection \<open>Defining and redefining the write prim\<close>

definition initUsdPrim ::
  "('f, 't, 'k) GusdPointsWrapper \<Rightarrow> ('f, 't) UsdStage \<Rightarrow> string \<Rightarrow> bool \<Rightarrow>
   bool \<times> ('f, 't, 'k) GusdPointsWrapper" where
  "initUsdPrim w stage path asOverride =
     (let w1 = (if asOverride then w\<lparr>m_usdPointsForWrite := OverridePrim stage path\<rparr>
                else w\<lparr>m_usdPointsForWrite := Define stage path\<rparr>)
      in (IsValid (m_usdPointsForWrite w1), w1))"

text \<open>\<^verbatim>\<open>redefine\<close>; \<^verbatim>\<open>clearCaches\<close> is a method of the base class, on the caches of
  the base class.\<close>

definition redefine ::
  "('k \<Rightarrow> 'k) \<Rightarrow> ('f, 't, 'k) GusdPointsWrapper \<Rightarrow> ('f, 't) UsdStage \<Rightarrow> string \<Rightarrow>
   ('f, 't) GusdContext \<Rightarrow> 'f GT_Primitive \<Rightarrow> bool \<times> ('f, 't, 'k) GusdPointsWrapper" where
  "redefine clearCaches w stage path ctxt sourcePrim =
     (let w1 = snd (initUsdPrim w stage path (getOverGeo ctxt sourcePrim));
          w2 = w1\<lparr>m_caches := clearCaches (m_caches w1)\<rparr>
      in (True, w2))"

subsection \<open>\<^verbatim>\<open>updateFromGTPrim\<close>\<close>

text \<open>The block \<^verbatim>\<open>// pscale & width\<close>: the handle and the owner that go to the update of
  the widths attribute.\<close>

definition updateFromGTPrim_widths ::
  "('f, 'd) fp_ops \<Rightarrow> 'f GT_Primitive \<Rightarrow> GT_Owner \<Rightarrow> 'f GT_DataArray option \<times> GT_Owner" where
  "updateFromGTPrim_widths fl sourcePrim attrOwner =
     (let houAttr = findAttribute sourcePrim ''widths'';
          attrOwner1 = findAttribute_owner sourcePrim ''widths'' attrOwner
      in case houAttr of
           Some a \<Rightarrow> (Some a, attrOwner1)
         | None \<Rightarrow>
             (let houAttr2 = findAttribute sourcePrim ''pscale'';
                  attrOwner2 = findAttribute_owner sourcePrim ''pscale'' attrOwner1
              in case houAttr2 of
                   None \<Rightarrow> (None, attrOwner2)
                 | Some a \<Rightarrow>
                     if getTupleSize a = 1 then
                       (let numVals = entries a;
                            pscaleArray = fillArray a 0 numVals 1;
                            pscaleArray2 = map (fmul fl (f_two fl)) pscaleArray
                        in (Some (GT_Real32Array pscaleArray2 numVals 1), attrOwner2))
                     else (Some a, attrOwner2)))"

text \<open>The block \<^verbatim>\<open>// primvars\<close> up to the colour: the filter of the context with the
  reserved names excluded, applied to the point and to the detail attributes.\<close>

definition updateFromGTPrim_primvars ::
  "('f, 't) GusdContext \<Rightarrow> 'f GT_Primitive \<Rightarrow> ('f, 't, 'm) usd_call list" where
  "updateFromGTPrim_primvars ctxt sourcePrim =
     (let filter0 = attributeFilter ctxt;
          filter1 = appendPattern GT_OWNER_POINT
                      ''^P ^N ^v ^widths ^pscale ^visible ^usdactive'' filter0;
          filter2 = appendPattern GT_OWNER_CONSTANT ''^visible ^usdactive'' filter1;
          pt = (case getPointAttributes sourcePrim of
                  None \<Rightarrow> ([], filter2)
                | Some pointAttrs \<Rightarrow>
                    (let filter' = setActiveOwners [GT_OWNER_POINT] filter2
                     in ([updatePrimvarFromGTPrim pointAttrs filter' UsdGeomTokens_vertex
                            (time ctxt)], filter')));
          calls1 = fst pt;
          filter3 = snd pt;
          calls2 = (case getDetailAttributes sourcePrim of
                      None \<Rightarrow> []
                    | Some constAttrs \<Rightarrow>
                        [updatePrimvarFromGTPrim constAttrs
                           (setActiveOwners [GT_OWNER_CONSTANT] filter3)
                           UsdGeomTokens_constant (time ctxt)])
      in calls1 @ calls2)"

text \<open>The block of the colour attribute \<^verbatim>\<open>Cd\<close>. The owner variable \<^verbatim>\<open>own\<close> has no
  initial value in the source; \<^verbatim>\<open>findAttribute\<close> writes it.\<close>

definition updateFromGTPrim_Cd ::
  "('f, 't, 'm, 'c) GusdPrimWrapper \<Rightarrow> ('f, 't) GusdContext \<Rightarrow> 'f GT_Primitive \<Rightarrow>
   ('f, 't, 'm) usd_call list" where
  "updateFromGTPrim_Cd base ctxt sourcePrim =
     (case findAttribute sourcePrim ''Cd'' of
        None \<Rightarrow> []
      | Some Cd \<Rightarrow>
          (let own = findAttribute_owner sourcePrim ''Cd'' GT_OWNER_INVALID;
               attrList = addAttribute ''displayColor'' Cd True [];
               filter1 = setActiveOwners [own] (GusdGT_AttrFilter_new base ''*'')
           in [updatePrimvarFromGTPrim attrList filter1 (s_ownerToUsdInterp base own)
                 (time ctxt)]))"

text \<open>What a call of \<^verbatim>\<open>updateFromGTPrim\<close> leaves: the returned flag, the calls made
  in their order, and the transform cache.\<close>

record ('f, 't, 'm, 'c) update_result =
  returned :: bool
  calls :: "('f, 't, 'm) usd_call list"
  xformCache_out :: 'c

definition updateFromGTPrim ::
  "('f, 'd) fp_ops \<Rightarrow> ('f, 't, 'm, 'c) GusdPrimWrapper \<Rightarrow> ('f, 't, 'k) GusdPointsWrapper \<Rightarrow>
   'f GT_Primitive \<Rightarrow> 'm \<Rightarrow> ('f, 't) GusdContext \<Rightarrow> 'c \<Rightarrow> ('f, 't, 'm, 'c) update_result" where
  "updateFromGTPrim fl base w sourcePrim houXform ctxt xformCache =
     (if \<not> IsValid (m_usdPointsForWrite w) then
        \<lparr>returned = False, calls = [], xformCache_out = xformCache\<rparr>
      else
        let writeNewGeo = \<not> getOverGeo ctxt sourcePrim;
            xc = computeTransform base (m_usdPointsForWrite w) (time ctxt) houXform xformCache;
            xform = fst xc;
            xformCache1 = snd xc;
            attrOwner = GT_OWNER_INVALID;
            extent = [updateAttributeFromGTPrim GT_OWNER_INVALID ''extents''
                        (getExtentsArray sourcePrim) ExtentAttr (time ctxt)];
            transform = [updateTransformFromGTPrim xform (time ctxt)
                           (granularity ctxt = PER_FRAME)];
            intrinsic =
              (if writeNewGeo \<and> purpose ctxt \<noteq> UsdGeomTokens_default
               then [UsdAttribute_Set PurposeAttr (purpose ctxt)] else []);
            visibility =
              (if granularity ctxt = PER_FRAME
               then [updateVisibilityFromGTPrim (time ctxt)] else []);
            ownerP = findAttribute_owner sourcePrim ''P'' attrOwner;
            updateP = [updateAttributeFromGTPrim ownerP ''P'' (findAttribute sourcePrim ''P'')
                         PointsAttr (time ctxt)];
            ownerN = findAttribute_owner sourcePrim ''N'' ownerP;
            updateN = [updateAttributeFromGTPrim ownerN ''N'' (findAttribute sourcePrim ''N'')
                         NormalsAttr (time ctxt)];
            ownerV = findAttribute_owner sourcePrim ''v'' ownerN;
            updateV = [updateAttributeFromGTPrim ownerV ''v'' (findAttribute sourcePrim ''v'')
                         VelocitiesAttr (time ctxt)];
            hw = updateFromGTPrim_widths fl sourcePrim ownerV;
            updateWidths = [updateAttributeFromGTPrim (snd hw) ''widths'' (fst hw)
                              WidthsAttr (time ctxt)];
            primvars = updateFromGTPrim_primvars ctxt sourcePrim;
            colour = updateFromGTPrim_Cd base ctxt sourcePrim
        in \<lparr>returned = base_updateFromGTPrim base sourcePrim houXform ctxt xformCache1,
            calls = extent @ transform @ intrinsic @ visibility @ updateP @ updateN @ updateV @
                    updateWidths @
                    primvars @ colour @ [GusdPrimWrapper_updateFromGTPrim],
            xformCache_out = xformCache1\<rparr>)"

section \<open>Concrete inputs\<close>

text \<open>The inputs below hold small whole numbers and halves as \<^verbatim>\<open>fpreal32\<close> values:
  \<open>Finite False n 0\<close> is the whole number \<open>n\<close>, \<open>Finite False 3 (- 1)\<close> is 1.5.\<close>

definition examplePoints :: "(ieee, nat) UsdGeomPoints" where
  "examplePoints =
     \<lparr>IsValid = True, GetPath = ''/pts'',
      attr_points = Some \<lparr>HasAuthoredValueOpinion = True,
                          resolve = (\<lambda>t. Some [(Finite False 0 0, Finite False 0 0, Finite False 0 0),
                                                 (Finite False 1 0, Finite False 0 0, Finite False 0 0)])\<rparr>,
      attr_normals = Some \<lparr>HasAuthoredValueOpinion = True,
                           resolve = (\<lambda>t. Some [(Finite False 0 0, Finite False 0 0, Finite False 1 0)])\<rparr>,
      attr_velocities = Some \<lparr>HasAuthoredValueOpinion = True,
                              resolve = (\<lambda>t. Some [(Finite False 1 0, Finite False 1 0, Finite False 1 0),
                                                     (Finite False 2 0, Finite False 2 0, Finite False 2 0)])\<rparr>,
      attr_widths = Some \<lparr>HasAuthoredValueOpinion = True,
                          resolve = (\<lambda>t. Some [Finite False 1 1, Finite False 3 0])\<rparr>\<rparr>"

definition invalidPoints :: "(ieee, nat) UsdGeomPoints" where
  "invalidPoints =
     \<lparr>IsValid = False, GetPath = [], attr_points = None, attr_normals = None,
      attr_velocities = None, attr_widths = None\<rparr>"

definition readWrapper :: "(ieee, nat, unit) GusdPointsWrapper" where
  "readWrapper =
     \<lparr>m_time = 0, m_usdPointsForRead = examplePoints, m_usdPointsForWrite = invalidPoints,
      m_caches = ()\<rparr>"

definition noPrimvars :: "(ieee, nat) loadPrimvars" where
  "noPrimvars t parms minUniform minPoint minVertex primPath pv = pv"

definition invalidWrapper :: "(ieee, nat, unit) GusdPointsWrapper" where
  "invalidWrapper =
     \<lparr>m_time = 0, m_usdPointsForRead = invalidPoints, m_usdPointsForWrite = invalidPoints,
      m_caches = ()\<rparr>"


text \<open>An attribute with an authored opinion whose value does not resolve, and a prim
  that has it as its velocities, after two positions and two normals.\<close>

definition unresolvedAttr :: "(ieee GfVec3f list, nat) UsdAttribute" where
  "unresolvedAttr = \<lparr>HasAuthoredValueOpinion = True, resolve = (\<lambda>t. None)\<rparr>"

definition stalePoints :: "(ieee, nat) UsdGeomPoints" where
  "stalePoints =
     \<lparr>IsValid = True, GetPath = ''/pts'',
      attr_points = Some \<lparr>HasAuthoredValueOpinion = True,
                          resolve = (\<lambda>t. Some [(Finite False 0 0, Finite False 0 0, Finite False 0 0),
                                     (Finite False 1 0, Finite False 0 0, Finite False 0 0)])\<rparr>,
      attr_normals = Some \<lparr>HasAuthoredValueOpinion = True,
                           resolve = (\<lambda>t. Some [(Finite False 0 0, Finite False 0 0, Finite False 1 0),
                                      (Finite False 0 0, Finite False 1 0, Finite False 0 0)])\<rparr>,
      attr_velocities = Some unresolvedAttr,
      attr_widths = None\<rparr>"

definition staleWrapper :: "(ieee, nat, unit) GusdPointsWrapper" where
  "staleWrapper =
     \<lparr>m_time = 0, m_usdPointsForRead = stalePoints, m_usdPointsForWrite = invalidPoints,
      m_caches = ()\<rparr>"

definition writablePoints :: "(ieee, nat) UsdGeomPoints" where
  "writablePoints =
     \<lparr>IsValid = True, GetPath = ''/out'', attr_points = None, attr_normals = None,
      attr_velocities = None, attr_widths = None\<rparr>"

definition writeWrapper :: "(ieee, nat, unit) GusdPointsWrapper" where
  "writeWrapper =
     \<lparr>m_time = 0, m_usdPointsForRead = invalidPoints, m_usdPointsForWrite = writablePoints,
      m_caches = ()\<rparr>"

definition exampleBase :: "(ieee, nat, unit, unit) GusdPrimWrapper" where
  "exampleBase =
     \<lparr>computeTransform = (\<lambda>p t m c. (m, c)),
      s_ownerToUsdInterp = (\<lambda>owner. if owner = GT_OWNER_POINT then ''vertex'' else ''constant''),
      GusdGT_AttrFilter_new = (\<lambda>pattern. \<lparr>m_patterns = (\<lambda>owner. '' '' @ pattern),
                                            m_activeOwners = []\<rparr>),
      base_updateFromGTPrim = (\<lambda>sourcePrim m ctxt c. True)\<rparr>"

definition scalarPscale :: "ieee GT_DataArray" where
  "scalarPscale = \<lparr>da_type = GT_TYPE_NONE, da_tupleSize = 1, da_data = [Finite False 1 0, Finite False 3 (- 1)]\<rparr>"

definition vectorPscale :: "ieee GT_DataArray" where
  "vectorPscale =
     \<lparr>da_type = GT_TYPE_NONE, da_tupleSize = 3,
      da_data = [Finite False 1 0, Finite False 2 0, Finite False 3 0,
                 Finite False 4 0, Finite False 5 0, Finite False 6 0]\<rparr>"

definition positions :: "ieee GT_DataArray" where
  "positions =
     \<lparr>da_type = GT_TYPE_POINT, da_tupleSize = 3,
      da_data = [Finite False 0 0, Finite False 0 0, Finite False 0 0,
                 Finite False 1 0, Finite False 0 0, Finite False 0 0]\<rparr>"

definition flag :: "ieee GT_DataArray" where
  "flag = \<lparr>da_type = GT_TYPE_NONE, da_tupleSize = 1, da_data = [Finite False 1 0]\<rparr>"

text \<open>A source primitive with positions, a scalar \<open>pscale\<close> and an \<open>id\<close> on its points, and
  \<open>usdactive\<close> and \<open>shop\<close> on its detail; it has no \<open>widths\<close>.\<close>

definition pscalePrim :: "ieee GT_Primitive" where
  "pscalePrim =
     \<lparr>findAttribute = (\<lambda>name. if name = ''P'' then Some positions
                               else if name = ''pscale'' then Some scalarPscale
                               else if name = ''id'' then Some scalarPscale
                               else if name = ''usdactive'' then Some flag
                               else if name = ''shop'' then Some flag else None),
      findAttribute_owner = (\<lambda>name owner. if name = ''P'' \<or> name = ''pscale'' \<or> name = ''id''
                                           then GT_OWNER_POINT
                                           else if name = ''usdactive'' \<or> name = ''shop''
                                           then GT_OWNER_CONSTANT else owner),
      getPointAttributes = Some [(''P'', positions), (''pscale'', scalarPscale),
                                 (''id'', scalarPscale)],
      getDetailAttributes = Some [(''usdactive'', flag), (''shop'', flag)],
      getExtentsArray = None\<rparr>"

text \<open>The same, with a \<open>pscale\<close> of tuple size 3.\<close>

definition vectorPscalePrim :: "ieee GT_Primitive" where
  "vectorPscalePrim =
     \<lparr>findAttribute = (\<lambda>name. if name = ''P'' then Some positions
                               else if name = ''pscale'' then Some vectorPscale else None),
      findAttribute_owner = (\<lambda>name owner. if name = ''P'' \<or> name = ''pscale''
                                           then GT_OWNER_POINT else owner),
      getPointAttributes = Some [(''P'', positions), (''pscale'', vectorPscale)],
      getDetailAttributes = None,
      getExtentsArray = None\<rparr>"

text \<open>A source primitive with explicit \<open>widths\<close> beside its \<open>pscale\<close>.\<close>

definition widthsPrim :: "ieee GT_Primitive" where
  "widthsPrim =
     \<lparr>findAttribute = (\<lambda>name. if name = ''widths'' then Some scalarPscale
                               else if name = ''pscale'' then Some flag else None),
      findAttribute_owner = (\<lambda>name owner. if name = ''widths'' \<or> name = ''pscale''
                                           then GT_OWNER_POINT else owner),
      getPointAttributes = Some [(''widths'', scalarPscale), (''pscale'', flag)],
      getDetailAttributes = None,
      getExtentsArray = None\<rparr>"

text \<open>A source primitive whose scalar \<open>pscale\<close> is a detail attribute.\<close>

definition detailPscalePrim :: "ieee GT_Primitive" where
  "detailPscalePrim =
     \<lparr>findAttribute = (\<lambda>name. if name = ''P'' then Some positions
                               else if name = ''pscale'' then Some scalarPscale else None),
      findAttribute_owner = (\<lambda>name owner. if name = ''P'' then GT_OWNER_POINT
                                           else if name = ''pscale'' then GT_OWNER_CONSTANT
                                           else owner),
      getPointAttributes = Some [(''P'', positions)],
      getDetailAttributes = Some [(''pscale'', scalarPscale)],
      getExtentsArray = None\<rparr>"

definition matchAll :: GusdGT_AttrFilter where
  "matchAll = \<lparr>m_patterns = (\<lambda>owner. '' *''), m_activeOwners = []\<rparr>"

definition defineCtxt :: "(ieee, nat) GusdContext" where
  "defineCtxt =
     \<lparr>time = 0, granularity = PER_FRAME, purpose = ''render'', attributeFilter = matchAll,
      getOverGeo = (\<lambda>sourcePrim. False)\<rparr>"

definition overCtxt :: "(ieee, nat) GusdContext" where
  "overCtxt =
     \<lparr>time = 0, granularity = PER_FRAME, purpose = ''render'', attributeFilter = matchAll,
      getOverGeo = (\<lambda>sourcePrim. True)\<rparr>"

definition defaultPurposeCtxt :: "(ieee, nat) GusdContext" where
  "defaultPurposeCtxt =
     \<lparr>time = 0, granularity = ONE_FILE, purpose = ''default'', attributeFilter = matchAll,
      getOverGeo = (\<lambda>sourcePrim. False)\<rparr>"

text \<open>A stage on which neither defining nor overriding a prim succeeds.\<close>

definition failingStage :: "(ieee, nat) UsdStage" where
  "failingStage = \<lparr>OverridePrim = (\<lambda>path. invalidPoints), Define = (\<lambda>path. invalidPoints)\<rparr>"

definition workingStage :: "(ieee, nat) UsdStage" where
  "workingStage = \<lparr>OverridePrim = (\<lambda>path. writablePoints), Define = (\<lambda>path. writablePoints)\<rparr>"

section \<open>Properties of the arithmetic\<close>

lemma bitlength_le: "m < 2 ^ k \<Longrightarrow> bitlength m \<le> k"
proof (induction k arbitrary: m)
  case 0
  then show ?case by (simp add: bitlength.simps)
next
  case (Suc k)
  then have "m div 2 < 2 ^ k" by simp
  from Suc.IH [OF this] show ?case
    by (subst bitlength.simps) simp
qed

lemma round_nearest_even_0: "round_nearest_even m 0 = m"
  by (simp add: round_nearest_even_def)

text \<open>A value that fits the format is not changed by rounding into it.\<close>

lemma round_to_exact:
  assumes "int (bitlength m) \<le> int (precision F)" and "emin F \<le> e"
    and "int (bitlength m) + e \<le> int (precision F) + emax F"
  shows "round_to F s m e = Finite s m e"
  using assms by (simp add: round_to_def Let_def round_nearest_even_0 max_def)

lemma convert_binary64_of_binary32:
  assumes "is_binary32 x"
  shows "fp_convert binary64 x = x"
proof (cases x)
  case (Finite s m e)
  with assms have m: "m < 2 ^ 24" and e: "- 149 \<le> e" "e \<le> 104" by simp_all
  from bitlength_le [OF m] have "bitlength m \<le> 24" .
  with e show ?thesis
    unfolding Finite by (simp add: round_to_exact binary64_def)
qed simp_all

text \<open>The two constants denote a half and two.\<close>

lemma d_half_ieee754: "valof (d_half ieee754) = 1 / 2"
  by (simp add: ieee754_def)

lemma f_two_ieee754: "f_two ieee754 = Finite False 1 1"
  by (simp add: ieee754_def round_to_def Let_def binary32_def round_nearest_even_def
      bitlength.simps)

lemma halved_ieee754:
  "halved ieee754 x =
     fp_convert binary32 (fp_mul binary64 (fp_convert binary64 x) (Finite False 1 (- 1)))"
  by (simp add: halved_def ieee754_def)

text \<open>Halving a finite \<^verbatim>\<open>fpreal32\<close>: above the least exponent the exponent drops by one;
  at the least exponent the significand is halved and rounded.\<close>

lemma halved_finite:
  assumes "m < 2 ^ 24" and "- 149 \<le> e" and "e \<le> 104"
  shows "halved ieee754 (Finite s m e) =
           (if - 149 < e then Finite s m (e - 1)
            else Finite s (round_nearest_even m 1) (- 149))"
proof -
  from bitlength_le [OF assms(1)] have bl: "bitlength m \<le> 24" .
  have w: "fp_convert binary64 (Finite s m e) = Finite s m e"
    using assms by (intro convert_binary64_of_binary32) simp
  have d: "fp_mul binary64 (Finite s m e) (Finite False 1 (- 1)) = Finite s m (e - 1)"
    using bl assms by (simp add: round_to_exact binary64_def)
  show ?thesis
  proof (cases "- 149 < e")
    case True
    with bl assms have "fp_convert binary32 (Finite s m (e - 1)) = Finite s m (e - 1)"
      by (simp add: round_to_exact binary32_def)
    with True w d show ?thesis
      by (simp add: halved_def ieee754_def)
  next
    case False
    with assms have e: "e = - 149" by simp
    have "round_nearest_even m 1 \<le> m div 2 + 1"
      by (simp add: round_nearest_even_def Let_def)
    also have "\<dots> \<le> 2 ^ 23" using assms(1) by simp
    finally have "round_nearest_even m 1 < 2 ^ 24" by simp
    from bitlength_le [OF this] have "bitlength (round_nearest_even m 1) \<le> 24" .
    with bl have "fp_convert binary32 (Finite s m (- 150)) =
                    Finite s (round_nearest_even m 1) (- 149)"
      by (simp add: round_to_def Let_def binary32_def max_def)
    with e w d show ?thesis
      by (simp add: halved_def ieee754_def)
  qed
qed

text \<open>The half is exact unless the width has the least exponent and an odd
  significand.\<close>

lemma halved_exact:
  assumes "m < 2 ^ 24" and "- 149 \<le> e" and "e \<le> 104" and "even m \<or> - 149 < e"
  shows "valof (halved ieee754 (Finite s m e)) = valof (Finite s m e) * (1 / 2)"
proof (cases "- 149 < e")
  case True
  have "(2::real) powi (e - 1) = 2 powi e / 2"
    by (simp add: power_int_diff)
  with True show ?thesis
    by (simp add: halved_finite [OF assms(1-3)])
next
  case False
  with assms(4) have "even m" by simp
  then have q: "round_nearest_even m 1 = m div 2"
    by (auto simp add: round_nearest_even_def Let_def elim!: evenE)
  from \<open>even m\<close> have r: "real (m div 2) = real m / 2"
    by (auto elim!: evenE)
  from False assms(2) have "- 149 = e" by simp
  have "halved ieee754 (Finite s m e) = Finite s (round_nearest_even m 1) (- 149)"
    using False by (simp only: halved_finite [OF assms(1-3)] if_False)
  then have "halved ieee754 (Finite s m e) = Finite s (m div 2) e"
    by (simp only: q \<open>- 149 = e\<close>)
  then have "valof (halved ieee754 (Finite s m e)) =
               (if s then - 1 else 1) * real (m div 2) * 2 powi e"
    by simp
  with r show ?thesis by simp
qed

text \<open>Doubling a finite \<^verbatim>\<open>fpreal32\<close>: the exponent rises by one, or the product is
  beyond the greatest finite value and is the infinity.\<close>

lemma doubled_finite:
  assumes "m < 2 ^ 24" and "- 149 \<le> e" and "e \<le> 104"
  shows "fmul ieee754 (f_two ieee754) (Finite s m e) =
           (if 128 < int (bitlength m) + (e + 1) then Infinity s else Finite s m (e + 1))"
proof -
  from bitlength_le [OF assms(1)] have bl: "bitlength m \<le> 24" .
  have "fmul ieee754 (f_two ieee754) (Finite s m e) = round_to binary32 s m (1 + e)"
    by (simp add: f_two_ieee754) (simp add: ieee754_def)
  also have "\<dots> = (if 128 < int (bitlength m) + (e + 1) then Infinity s
                    else Finite s m (e + 1))"
    using bl assms
    by (simp add: round_to_def Let_def binary32_def max_def round_nearest_even_0 add.commute)
  finally show ?thesis .
qed

lemma doubled_exact:
  assumes "m < 2 ^ 24" and "- 149 \<le> e" and "e \<le> 104"
  shows "fmul ieee754 (f_two ieee754) (Finite s m e) = Infinity s \<or>
         valof (fmul ieee754 (f_two ieee754) (Finite s m e)) = 2 * valof (Finite s m e)"
proof -
  have "(2::real) powi (e + 1) = 2 * 2 powi e"
    by (simp add: power_int_add)
  then show ?thesis
    by (simp add: doubled_finite [OF assms])
qed

lemma doubled_ieee754:
  "fmul ieee754 (f_two ieee754) x = fp_mul binary32 (Finite False 1 1) x"
  by (simp add: f_two_ieee754) (simp add: ieee754_def)

text \<open>The products at the concrete inputs, and at the two ends of the range: the least
  positive \<^verbatim>\<open>fpreal32\<close> halves to zero, the greatest doubles to the infinity.\<close>

lemma halved_examples:
  "halved ieee754 (Finite False 1 1) = Finite False 1 0"
  "halved ieee754 (Finite False 3 0) = Finite False 3 (- 1)"
  "halved ieee754 (Finite False 1 (- 149)) = Finite False 0 (- 149)"
  by (simp_all add: halved_finite round_nearest_even_def)

lemma doubled_examples:
  "fmul ieee754 (f_two ieee754) (Finite False 1 0) = Finite False 1 1"
  "fmul ieee754 (f_two ieee754) (Finite False 3 (- 1)) = Finite False 3 0"
  "fmul ieee754 (f_two ieee754) (Finite False (2 ^ 24 - 1) 104) = Infinity False"
  by (simp_all add: doubled_finite bitlength.simps)

section \<open>Properties of the read path\<close>

subsection \<open>Attribute lists and the three optional blocks\<close>

lemma getAttr_addAttribute:
  "getAttr (addAttribute n d True xs) m = (if m = n then Some d else getAttr xs m)"
  by (induction xs) (auto simp: getAttr_def)

lemma refine_normals_frame:
  "vtFloatArray (refine_normals points usdPoints t L) = vtFloatArray L"
  "gtDetailAttrs (refine_normals points usdPoints t L) = gtDetailAttrs L"
  by (simp_all add: refine_normals_def Let_def split: option.splits)

lemma refine_velocities_frame:
  "vtFloatArray (refine_velocities points usdPoints t L) = vtFloatArray L"
  "gtDetailAttrs (refine_velocities points usdPoints t L) = gtDetailAttrs L"
  by (simp_all add: refine_velocities_def Let_def split: option.splits)

lemma refine_widths_frame:
  "gtDetailAttrs (refine_widths fl points usdPoints t L) = gtDetailAttrs L"
  by (simp_all add: refine_widths_def Let_def split: option.splits)

lemma refine_pointAttrs_detail:
  "gtDetailAttrs (refine_pointAttrs fl points usdPoints t L) = gtDetailAttrs L"
  by (simp add: refine_pointAttrs_def refine_normals_frame refine_velocities_frame
      refine_widths_frame)

lemma refine_normals_other:
  "name \<noteq> ''N'' \<Longrightarrow>
   getAttr (gtPointAttrs (refine_normals points usdPoints t L)) name = getAttr (gtPointAttrs L) name"
  by (simp add: refine_normals_def Let_def getAttr_addAttribute split: option.splits)

lemma refine_velocities_other:
  "name \<noteq> ''v'' \<Longrightarrow>
   getAttr (gtPointAttrs (refine_velocities points usdPoints t L)) name = getAttr (gtPointAttrs L) name"
  by (simp add: refine_velocities_def Let_def getAttr_addAttribute split: option.splits)

lemma refine_widths_other:
  "name \<noteq> ''pscale'' \<Longrightarrow>
   getAttr (gtPointAttrs (refine_widths fl points usdPoints t L)) name = getAttr (gtPointAttrs L) name"
  by (simp add: refine_widths_def Let_def getAttr_addAttribute split: option.splits)

lemma refine_velocities_warnings:
  "d \<in> set (warnings L) \<Longrightarrow> d \<in> set (warnings (refine_velocities points usdPoints t L))"
  by (auto simp add: refine_velocities_def Let_def split: option.splits)

lemma refine_widths_warnings:
  "d \<in> set (warnings L) \<Longrightarrow> d \<in> set (warnings (refine_widths fl points usdPoints t L))"
  by (auto simp add: refine_widths_def Let_def split: option.splits)

text \<open>What \<open>refine\<close> computes once the wrapper is valid, the position attribute exists
  and the viewport shortcut is off.\<close>

lemma refine_full:
  assumes "isValid w" and "GetPointsAttr (m_usdPointsForRead w) = Some pa"
    and "\<not> useViewportLOD parms"
  shows "refine fl lp w parms refiner =
    (let points = m_usdPointsForRead w; t = m_time w; usdPoints = Get pa [] t;
         L = refine_pointAttrs fl points usdPoints t
               \<lparr>vtFloatArray = [], vtVec3Array = [],
                gtPointAttrs = [(''P'', GusdGT_VtArray usdPoints GT_TYPE_POINT)],
                gtDetailAttrs = [], warnings = []\<rparr>;
         pv = lp t parms 0 (length usdPoints) 0 (GetPath points)
               \<lparr>pv_vertex = None, pv_point = Some (gtPointAttrs L), pv_primitive = None,
                pv_constant = Some []\<rparr>
     in \<lparr>ret = True, refined = refiner @ [GT_PrimPointMesh (pv_point pv) (pv_constant pv)],
         diagnostics = warnings L\<rparr>)"
  using assms
  by (simp add: refine_def Let_def refine_primvars_def refine_pointAttrs_detail)


lemma refine_widths_accepts:
  assumes "GetWidthsAttr points = Some wa" and "HasAuthoredValueOpinion wa"
    and "resolve wa t = Some ws" and "length usdPoints \<le> length ws"
  shows "getAttr (gtPointAttrs (refine_widths fl points usdPoints t L)) ''pscale'' =
           Some (GT_Real32Array (map (halved fl) ws) (length ws) 1)"
  using assms by (simp add: refine_widths_def Let_def Get_def getAttr_addAttribute)

lemma refine_widths_rejects:
  assumes "GetWidthsAttr points = Some wa" and "HasAuthoredValueOpinion wa"
    and "resolve wa t = Some ws" and "length ws < length usdPoints"
  shows "gtPointAttrs (refine_widths fl points usdPoints t L) = gtPointAttrs L"
    and "NotEnoughValues ''widths'' (GetPath points) (length usdPoints) (length ws)
           \<in> set (warnings (refine_widths fl points usdPoints t L))"
  using assms by (simp_all add: refine_widths_def Let_def Get_def)

lemma refine_normals_accepts:
  assumes "GetNormalsAttr points = Some na" and "HasAuthoredValueOpinion na"
    and "resolve na t = Some arr" and "length usdPoints \<le> length arr"
  shows "getAttr (gtPointAttrs (refine_normals points usdPoints t L)) ''N'' =
           Some (GusdGT_VtArray arr GT_TYPE_NORMAL)"
  using assms by (simp add: refine_normals_def Let_def Get_def getAttr_addAttribute)

lemma refine_normals_rejects:
  assumes "GetNormalsAttr points = Some na" and "HasAuthoredValueOpinion na"
    and "resolve na t = Some arr" and "length arr < length usdPoints"
  shows "gtPointAttrs (refine_normals points usdPoints t L) = gtPointAttrs L"
    and "NotEnoughValues ''normals'' (GetPath points) (length usdPoints) (length arr)
           \<in> set (warnings (refine_normals points usdPoints t L))"
  using assms by (simp_all add: refine_normals_def Let_def Get_def)

lemma refine_velocities_accepts:
  assumes "GetVelocitiesAttr points = Some va" and "HasAuthoredValueOpinion va"
    and "resolve va t = Some arr" and "length usdPoints \<le> length arr"
  shows "getAttr (gtPointAttrs (refine_velocities points usdPoints t L)) ''v'' =
           Some (GusdGT_VtArray arr GT_TYPE_VECTOR)"
  using assms by (simp add: refine_velocities_def Let_def Get_def getAttr_addAttribute)

lemma refine_velocities_rejects:
  assumes "GetVelocitiesAttr points = Some va" and "HasAuthoredValueOpinion va"
    and "resolve va t = Some arr" and "length arr < length usdPoints"
  shows "gtPointAttrs (refine_velocities points usdPoints t L) = gtPointAttrs L"
    and "NotEnoughValues ''velocities'' (GetPath points) (length usdPoints) (length arr)
           \<in> set (warnings (refine_velocities points usdPoints t L))"
  using assms by (simp_all add: refine_velocities_def Let_def Get_def)

lemma GT_Real32Array_entries:
  "entries (GT_Real32Array (map f xs) (length xs) 1) = length xs"
  by (simp add: GT_Real32Array_def entries_def)

subsection \<open>Widths are halved on read\<close>

text \<open>
  Claim C1. When \<open>refine\<close> accepts an authored widths array (the wrapper is valid, the
  position attribute exists, the viewport shortcut is off, the widths attribute is
  authored and resolves to an array \<open>ws\<close> at least as long as the positions), the point
  attribute list it hands on holds under the name \<open>pscale\<close> an array of tuple size 1 with
  as many entries as \<open>ws\<close>. Its value at every index is the product that line 206
  computes in the arithmetic of the machine: the width widened to a double, multiplied
  by the double 0.5 and rounded to \<^verbatim>\<open>fpreal32\<close>. For every finite width that product
  denotes exactly the width times 0.5, unless the width has the least exponent and an
  odd significand, where the half is rounded. That list \<open>A\<close> is the one \<open>loadPrimvars\<close>
  receives and the refined point mesh is built from.
\<close>

theorem refine_pscale_is_half_width:
  assumes "isValid w" and "GetPointsAttr (m_usdPointsForRead w) = Some pa"
    and "\<not> useViewportLOD parms"
    and "GetWidthsAttr (m_usdPointsForRead w) = Some wa" and "HasAuthoredValueOpinion wa"
    and "resolve wa (m_time w) = Some ws"
    and "length (Get pa [] (m_time w)) \<le> length ws"
  shows "\<exists>A pscale.
     refined (refine ieee754 lp w parms refiner) =
       refiner @
         [GT_PrimPointMesh
            (pv_point (lp (m_time w) parms 0 (length (Get pa [] (m_time w))) 0
               (GetPath (m_usdPointsForRead w))
               \<lparr>pv_vertex = None, pv_point = Some A, pv_primitive = None, pv_constant = Some []\<rparr>))
            (pv_constant (lp (m_time w) parms 0 (length (Get pa [] (m_time w))) 0
               (GetPath (m_usdPointsForRead w))
               \<lparr>pv_vertex = None, pv_point = Some A, pv_primitive = None, pv_constant = Some []\<rparr>))] \<and>
     getAttr A ''pscale'' = Some pscale \<and>
     getTupleSize pscale = 1 \<and> entries pscale = length ws \<and>
     (\<forall>i < length ws.
        da_data pscale ! i =
          fp_convert binary32
            (fp_mul binary64 (fp_convert binary64 (ws ! i)) (Finite False 1 (- 1)))) \<and>
     (\<forall>i s m e. i < length ws \<and> ws ! i = Finite s m e \<and> is_binary32 (ws ! i) \<and>
        (even m \<or> - 149 < e) \<longrightarrow>
        valof (da_data pscale ! i) = valof (ws ! i) * (1 / 2))"
proof -
  let ?points = "m_usdPointsForRead w"
  let ?t = "m_time w"
  let ?L = "refine_pointAttrs ieee754 ?points (Get pa [] ?t) ?t
              \<lparr>vtFloatArray = [], vtVec3Array = [],
               gtPointAttrs = [(''P'', GusdGT_VtArray (Get pa [] ?t) GT_TYPE_POINT)],
               gtDetailAttrs = [], warnings = []\<rparr>"
  let ?pscale = "GT_Real32Array (map (halved ieee754) ws) (length ws) 1"
  have out: "refined (refine ieee754 lp w parms refiner) =
       refiner @
         [GT_PrimPointMesh
            (pv_point (lp ?t parms 0 (length (Get pa [] ?t)) 0 (GetPath ?points)
               \<lparr>pv_vertex = None, pv_point = Some (gtPointAttrs ?L), pv_primitive = None,
                pv_constant = Some []\<rparr>))
            (pv_constant (lp ?t parms 0 (length (Get pa [] ?t)) 0 (GetPath ?points)
               \<lparr>pv_vertex = None, pv_point = Some (gtPointAttrs ?L), pv_primitive = None,
                pv_constant = Some []\<rparr>))]"
    using refine_full [OF assms(1-3), of ieee754 lp refiner] by (simp add: Let_def)
  have stored: "getAttr (gtPointAttrs ?L) ''pscale'' = Some ?pscale"
    unfolding refine_pointAttrs_def
    by (rule refine_widths_accepts [OF assms(4-7)])
  have tup: "getTupleSize ?pscale = 1"
    by (simp add: getTupleSize_def GT_Real32Array_def)
  have nth: "da_data ?pscale ! i = halved ieee754 (ws ! i)" if "i < length ws" for i
    using that by (simp add: GT_Real32Array_def)
  have vals: "\<forall>i < length ws.
        da_data ?pscale ! i =
          fp_convert binary32
            (fp_mul binary64 (fp_convert binary64 (ws ! i)) (Finite False 1 (- 1)))"
    using nth unfolding halved_ieee754 by blast
  have exact: "valof (da_data ?pscale ! i) = valof (ws ! i) * (1 / 2)"
    if "i < length ws" and "ws ! i = Finite s m e" and "is_binary32 (ws ! i)"
      and "even m \<or> - 149 < e" for i s m e
  proof -
    from that(2,3) have "m < 2 ^ 24" "- 149 \<le> e" "e \<le> 104" by simp_all
    from halved_exact [OF this that(4), of s]
    have "valof (halved ieee754 (ws ! i)) = valof (ws ! i) * (1 / 2)"
      by (simp only: that(2))
    then show ?thesis
      by (simp only: nth [OF that(1)])
  qed
  from out stored tup vals exact GT_Real32Array_entries [of "halved ieee754" ws] show ?thesis
    by blast
qed

theorem refine_pscale_is_half_width_witness:
  "isValid readWrapper \<and> \<not> useViewportLOD None \<and>
   (\<exists>A pscale.
      refined (refine ieee754 noPrimvars readWrapper None []) =
        [GT_PrimPointMesh (Some A) (Some [])] \<and>
      getAttr A ''pscale'' = Some pscale \<and>
      getTupleSize pscale = 1 \<and> entries pscale = 2 \<and>
      da_data pscale ! 0 = Finite False 1 0 \<and>
      valof (da_data pscale ! 0) = valof (Finite False 1 1) * (1 / 2) \<and>
      da_data pscale ! 1 = Finite False 3 (- 1) \<and>
      valof (da_data pscale ! 1) = valof (Finite False 3 0) * (1 / 2))"
proof -
  let ?pa = "\<lparr>HasAuthoredValueOpinion = True,
              resolve = (\<lambda>t::nat. Some [(Finite False 0 0, Finite False 0 0, Finite False 0 0),
                                        (Finite False 1 0, Finite False 0 0, Finite False 0 0)])\<rparr>"
  let ?wa = "\<lparr>HasAuthoredValueOpinion = True,
              resolve = (\<lambda>t::nat. Some [Finite False 1 1, Finite False 3 0])\<rparr>"
  let ?ws = "[Finite False 1 1, Finite False 3 0]"
  have valid: "isValid readWrapper"
    by (simp add: readWrapper_def examplePoints_def isValid_def)
  have points: "GetPointsAttr (m_usdPointsForRead readWrapper) = Some ?pa"
    by (simp add: readWrapper_def examplePoints_def GetPointsAttr_def)
  have lod: "\<not> useViewportLOD None"
    by (simp add: useViewportLOD_def)
  have widths: "GetWidthsAttr (m_usdPointsForRead readWrapper) = Some ?wa"
    by (simp add: readWrapper_def examplePoints_def GetWidthsAttr_def)
  have authored: "HasAuthoredValueOpinion ?wa" by simp
  have resolved: "resolve ?wa (m_time readWrapper) = Some ?ws" by simp
  have long: "length (Get ?pa [] (m_time readWrapper)) \<le> length ?ws"
    by (simp add: Get_def)
  from refine_pscale_is_half_width
         [OF valid points lod widths authored resolved long, of noPrimvars "[]"]
  obtain A pscale where
    mesh: "refined (refine ieee754 noPrimvars readWrapper None []) =
             [GT_PrimPointMesh (Some A) (Some [])]"
    and stored: "getAttr A ''pscale'' = Some pscale"
    and shape: "getTupleSize pscale = 1" "entries pscale = 2"
    and vals: "\<forall>i < length ?ws.
        da_data pscale ! i =
          fp_convert binary32
            (fp_mul binary64 (fp_convert binary64 (?ws ! i)) (Finite False 1 (- 1)))"
    and exact: "\<forall>i s m e. i < length ?ws \<and> ?ws ! i = Finite s m e \<and> is_binary32 (?ws ! i) \<and>
        (even m \<or> - 149 < e) \<longrightarrow>
        valof (da_data pscale ! i) = valof (?ws ! i) * (1 / 2)"
    by (auto simp add: noPrimvars_def)
  from vals [rule_format, of 0] have "da_data pscale ! 0 = halved ieee754 (?ws ! 0)"
    by (simp del: One_nat_def add: halved_ieee754)
  then have v0: "da_data pscale ! 0 = Finite False 1 0"
    by (simp del: One_nat_def add: halved_examples)
  from vals [rule_format, of 1] have "da_data pscale ! 1 = halved ieee754 (?ws ! 1)"
    by (simp del: One_nat_def add: halved_ieee754)
  then have v1: "da_data pscale ! 1 = Finite False 3 (- 1)"
    by (simp add: halved_examples)
  from exact [rule_format, of 0 False 1 1] exact [rule_format, of 1 False 3 0]
  have "valof (da_data pscale ! 0) = valof (Finite False 1 1) * (1 / 2)"
    and "valof (da_data pscale ! 1) = valof (Finite False 3 0) * (1 / 2)"
    by simp_all
  with valid lod mesh stored shape v0 v1 show ?thesis
    by blast
qed

lemma refine_pointAttrs_normals:
  assumes "GetNormalsAttr points = Some na" and "HasAuthoredValueOpinion na"
    and "resolve na t = Some arr"
  shows "if length arr < length usdPoints
         then NotEnoughValues ''normals'' (GetPath points) (length usdPoints) (length arr)
                \<in> set (warnings (refine_pointAttrs fl points usdPoints t L)) \<and>
              getAttr (gtPointAttrs (refine_pointAttrs fl points usdPoints t L)) ''N'' =
                getAttr (gtPointAttrs L) ''N''
         else getAttr (gtPointAttrs (refine_pointAttrs fl points usdPoints t L)) ''N'' =
                Some (GusdGT_VtArray arr GT_TYPE_NORMAL)"
proof (cases "length arr < length usdPoints")
  case True
  have "NotEnoughValues ''normals'' (GetPath points) (length usdPoints) (length arr)
          \<in> set (warnings (refine_normals points usdPoints t L))"
    by (rule refine_normals_rejects(2) [OF assms True])
  then have "NotEnoughValues ''normals'' (GetPath points) (length usdPoints) (length arr)
          \<in> set (warnings (refine_pointAttrs fl points usdPoints t L))"
    unfolding refine_pointAttrs_def
    by (intro refine_widths_warnings refine_velocities_warnings)
  moreover have "getAttr (gtPointAttrs (refine_pointAttrs fl points usdPoints t L)) ''N'' =
                getAttr (gtPointAttrs L) ''N''"
    by (simp add: refine_pointAttrs_def refine_widths_other refine_velocities_other
        refine_normals_rejects(1) [OF assms True])
  ultimately show ?thesis using True by simp
next
  case False
  then have "length usdPoints \<le> length arr" by simp
  then show ?thesis
    using False
    by (simp add: refine_pointAttrs_def refine_widths_other refine_velocities_other
        refine_normals_accepts [OF assms])
qed

lemma refine_pointAttrs_velocities:
  assumes "GetVelocitiesAttr points = Some va" and "HasAuthoredValueOpinion va"
    and "resolve va t = Some arr"
  shows "if length arr < length usdPoints
         then NotEnoughValues ''velocities'' (GetPath points) (length usdPoints) (length arr)
                \<in> set (warnings (refine_pointAttrs fl points usdPoints t L)) \<and>
              getAttr (gtPointAttrs (refine_pointAttrs fl points usdPoints t L)) ''v'' =
                getAttr (gtPointAttrs L) ''v''
         else getAttr (gtPointAttrs (refine_pointAttrs fl points usdPoints t L)) ''v'' =
                Some (GusdGT_VtArray arr GT_TYPE_VECTOR)"
proof (cases "length arr < length usdPoints")
  case True
  let ?L1 = "refine_normals points usdPoints t L"
  have "NotEnoughValues ''velocities'' (GetPath points) (length usdPoints) (length arr)
          \<in> set (warnings (refine_velocities points usdPoints t ?L1))"
    by (rule refine_velocities_rejects(2) [OF assms True])
  then have "NotEnoughValues ''velocities'' (GetPath points) (length usdPoints) (length arr)
          \<in> set (warnings (refine_pointAttrs fl points usdPoints t L))"
    unfolding refine_pointAttrs_def
    by (rule refine_widths_warnings)
  moreover have "getAttr (gtPointAttrs (refine_pointAttrs fl points usdPoints t L)) ''v'' =
                getAttr (gtPointAttrs L) ''v''"
    by (simp add: refine_pointAttrs_def refine_widths_other refine_normals_other
        refine_velocities_rejects(1) [OF assms True])
  ultimately show ?thesis using True by simp
next
  case False
  then have "length usdPoints \<le> length arr" by simp
  then show ?thesis
    using False
    by (simp add: refine_pointAttrs_def refine_widths_other
        refine_velocities_accepts [OF assms])
qed

lemma refine_pointAttrs_widths:
  assumes "GetWidthsAttr points = Some wa" and "HasAuthoredValueOpinion wa"
    and "resolve wa t = Some ws"
  shows "if length ws < length usdPoints
         then NotEnoughValues ''widths'' (GetPath points) (length usdPoints) (length ws)
                \<in> set (warnings (refine_pointAttrs fl points usdPoints t L)) \<and>
              getAttr (gtPointAttrs (refine_pointAttrs fl points usdPoints t L)) ''pscale'' =
                getAttr (gtPointAttrs L) ''pscale''
         else getAttr (gtPointAttrs (refine_pointAttrs fl points usdPoints t L)) ''pscale'' =
                Some (GT_Real32Array (map (halved fl) ws) (length ws) 1)"
proof (cases "length ws < length usdPoints")
  case True
  let ?L2 = "refine_velocities points usdPoints t (refine_normals points usdPoints t L)"
  have "NotEnoughValues ''widths'' (GetPath points) (length usdPoints) (length ws)
          \<in> set (warnings (refine_widths fl points usdPoints t ?L2))"
    by (rule refine_widths_rejects(2) [OF assms True])
  moreover have "getAttr (gtPointAttrs (refine_pointAttrs fl points usdPoints t L)) ''pscale'' =
                getAttr (gtPointAttrs L) ''pscale''"
    by (simp add: refine_pointAttrs_def refine_velocities_other refine_normals_other
        refine_widths_rejects(1) [OF assms True])
  ultimately show ?thesis using True by (simp add: refine_pointAttrs_def)
next
  case False
  then have "length usdPoints \<le> length ws" by simp
  then show ?thesis
    using False
    by (simp add: refine_pointAttrs_def refine_widths_accepts [OF assms])
qed

subsection \<open>Under-sized optional attributes\<close>

text \<open>
  The optional attributes whose value resolves. Let the wrapper be valid, the position
  attribute exist and the viewport shortcut be off. Then \<open>refine\<close> returns success with
  one point mesh built from the point attribute list \<open>A\<close> that it hands to
  \<open>loadPrimvars\<close>, and for each of normals, velocities and widths that is authored and
  resolves to an array: when the array is shorter than the positions, the warning for
  that attribute is among the diagnostics and \<open>A\<close> has no entry under the attribute's
  host name (\<open>N\<close>, \<open>v\<close>, \<open>pscale\<close>); when it is at least as long, \<open>A\<close> holds the attribute
  under that name.
\<close>

lemma refine_resolved_attributes:
  assumes "isValid w" and "GetPointsAttr (m_usdPointsForRead w) = Some pa"
    and "\<not> useViewportLOD parms"
  shows "\<exists>A D.
     refine fl lp w parms refiner =
       \<lparr>ret = True,
        refined = refiner @
         [GT_PrimPointMesh
            (pv_point (lp (m_time w) parms 0 (length (Get pa [] (m_time w))) 0
               (GetPath (m_usdPointsForRead w))
               \<lparr>pv_vertex = None, pv_point = Some A, pv_primitive = None, pv_constant = Some []\<rparr>))
            (pv_constant (lp (m_time w) parms 0 (length (Get pa [] (m_time w))) 0
               (GetPath (m_usdPointsForRead w))
               \<lparr>pv_vertex = None, pv_point = Some A, pv_primitive = None, pv_constant = Some []\<rparr>))],
        diagnostics = D\<rparr> \<and>
     (\<forall>na arr. GetNormalsAttr (m_usdPointsForRead w) = Some na \<and> HasAuthoredValueOpinion na \<and>
         resolve na (m_time w) = Some arr \<longrightarrow>
         (if length arr < length (Get pa [] (m_time w))
          then NotEnoughValues ''normals'' (GetPath (m_usdPointsForRead w))
                 (length (Get pa [] (m_time w))) (length arr) \<in> set D \<and>
               getAttr A ''N'' = None
          else getAttr A ''N'' = Some (GusdGT_VtArray arr GT_TYPE_NORMAL))) \<and>
     (\<forall>va arr. GetVelocitiesAttr (m_usdPointsForRead w) = Some va \<and> HasAuthoredValueOpinion va \<and>
         resolve va (m_time w) = Some arr \<longrightarrow>
         (if length arr < length (Get pa [] (m_time w))
          then NotEnoughValues ''velocities'' (GetPath (m_usdPointsForRead w))
                 (length (Get pa [] (m_time w))) (length arr) \<in> set D \<and>
               getAttr A ''v'' = None
          else getAttr A ''v'' = Some (GusdGT_VtArray arr GT_TYPE_VECTOR))) \<and>
     (\<forall>wa ws. GetWidthsAttr (m_usdPointsForRead w) = Some wa \<and> HasAuthoredValueOpinion wa \<and>
         resolve wa (m_time w) = Some ws \<longrightarrow>
         (if length ws < length (Get pa [] (m_time w))
          then NotEnoughValues ''widths'' (GetPath (m_usdPointsForRead w))
                 (length (Get pa [] (m_time w))) (length ws) \<in> set D \<and>
               getAttr A ''pscale'' = None
          else getAttr A ''pscale'' =
                 Some (GT_Real32Array (map (halved fl) ws) (length ws) 1)))"
proof -
  let ?points = "m_usdPointsForRead w"
  let ?t = "m_time w"
  let ?n = "length (Get pa [] ?t)"
  let ?init = "\<lparr>vtFloatArray = [], vtVec3Array = [],
               gtPointAttrs = [(''P'', GusdGT_VtArray (Get pa [] ?t) GT_TYPE_POINT)],
               gtDetailAttrs = [], warnings = []\<rparr> :: 'a refine_locals"
  let ?L = "refine_pointAttrs fl ?points (Get pa [] ?t) ?t ?init"
  have fresh: "getAttr (gtPointAttrs ?init) ''N'' = None" "getAttr (gtPointAttrs ?init) ''v'' = None"
    "getAttr (gtPointAttrs ?init) ''pscale'' = None"
    by (simp_all add: getAttr_def)
  have out: "refine fl lp w parms refiner =
       \<lparr>ret = True,
        refined = refiner @
         [GT_PrimPointMesh
            (pv_point (lp ?t parms 0 ?n 0 (GetPath ?points)
               \<lparr>pv_vertex = None, pv_point = Some (gtPointAttrs ?L), pv_primitive = None,
                pv_constant = Some []\<rparr>))
            (pv_constant (lp ?t parms 0 ?n 0 (GetPath ?points)
               \<lparr>pv_vertex = None, pv_point = Some (gtPointAttrs ?L), pv_primitive = None,
                pv_constant = Some []\<rparr>))],
        diagnostics = warnings ?L\<rparr>"
    using refine_full [OF assms, of fl lp refiner] by (simp add: Let_def)
  have normals: "\<forall>na arr. GetNormalsAttr ?points = Some na \<and> HasAuthoredValueOpinion na \<and>
         resolve na ?t = Some arr \<longrightarrow>
         (if length arr < ?n
          then NotEnoughValues ''normals'' (GetPath ?points) ?n (length arr)
                 \<in> set (warnings ?L) \<and> getAttr (gtPointAttrs ?L) ''N'' = None
          else getAttr (gtPointAttrs ?L) ''N'' = Some (GusdGT_VtArray arr GT_TYPE_NORMAL))"
    using refine_pointAttrs_normals [of ?points _ ?t _ "Get pa [] ?t" fl ?init] fresh(1)
    by (auto split: if_splits)
  have velocities: "\<forall>va arr. GetVelocitiesAttr ?points = Some va \<and> HasAuthoredValueOpinion va \<and>
         resolve va ?t = Some arr \<longrightarrow>
         (if length arr < ?n
          then NotEnoughValues ''velocities'' (GetPath ?points) ?n (length arr)
                 \<in> set (warnings ?L) \<and> getAttr (gtPointAttrs ?L) ''v'' = None
          else getAttr (gtPointAttrs ?L) ''v'' = Some (GusdGT_VtArray arr GT_TYPE_VECTOR))"
    using refine_pointAttrs_velocities [of ?points _ ?t _ "Get pa [] ?t" fl ?init] fresh(2)
    by (auto split: if_splits)
  have widths: "\<forall>wa ws. GetWidthsAttr ?points = Some wa \<and> HasAuthoredValueOpinion wa \<and>
         resolve wa ?t = Some ws \<longrightarrow>
         (if length ws < ?n
          then NotEnoughValues ''widths'' (GetPath ?points) ?n (length ws)
                 \<in> set (warnings ?L) \<and> getAttr (gtPointAttrs ?L) ''pscale'' = None
          else getAttr (gtPointAttrs ?L) ''pscale'' =
                 Some (GT_Real32Array (map (halved fl) ws) (length ws) 1))"
    using refine_pointAttrs_widths [of ?points _ ?t _ "Get pa [] ?t" fl ?init] fresh(3)
    by (auto split: if_splits)
  from out normals velocities widths show ?thesis
    by blast
qed


text \<open>
  Claim C3 fails on the code where an authored attribute resolves nothing. The prim below
  has two positions, two authored normals, and velocities with an authored opinion whose
  \<^verbatim>\<open>Get\<close> resolves no value. The velocities therefore have no value at all, fewer than
  the positions, and the claim asks for a warning and no \<open>v\<close>. The velocities block
  (lines 177 to 190) drops the flag of \<^verbatim>\<open>Get\<close> and tests the size of the buffer
  \<^verbatim>\<open>vtVec3Array\<close>, which still holds the normals: for every \<open>loadPrimvars\<close> and every
  arithmetic \<open>refine\<close> issues no warning, and the point list from which the mesh is built
  holds \<open>v\<close> with the values of the normals.
\<close>

theorem refine_unresolved_velocities_take_normals:
  "GetVelocitiesAttr (m_usdPointsForRead staleWrapper) = Some unresolvedAttr \<and>
   HasAuthoredValueOpinion unresolvedAttr \<and>
   resolve unresolvedAttr (m_time staleWrapper) = None \<and>
   refine fl lp staleWrapper None [] =
     \<lparr>ret = True,
      refined =
        [GT_PrimPointMesh
           (pv_point (lp 0 None 0 2 0 ''/pts''
              \<lparr>pv_vertex = None,
               pv_point = Some
                 [(''P'', GusdGT_VtArray [(Finite False 0 0, Finite False 0 0, Finite False 0 0),
                     (Finite False 1 0, Finite False 0 0, Finite False 0 0)] GT_TYPE_POINT),
                  (''N'', GusdGT_VtArray [(Finite False 0 0, Finite False 0 0, Finite False 1 0),
                     (Finite False 0 0, Finite False 1 0, Finite False 0 0)] GT_TYPE_NORMAL),
                  (''v'', GusdGT_VtArray [(Finite False 0 0, Finite False 0 0, Finite False 1 0),
                     (Finite False 0 0, Finite False 1 0, Finite False 0 0)] GT_TYPE_VECTOR)],
               pv_primitive = None, pv_constant = Some []\<rparr>))
           (pv_constant (lp 0 None 0 2 0 ''/pts''
              \<lparr>pv_vertex = None,
               pv_point = Some
                 [(''P'', GusdGT_VtArray [(Finite False 0 0, Finite False 0 0, Finite False 0 0),
                     (Finite False 1 0, Finite False 0 0, Finite False 0 0)] GT_TYPE_POINT),
                  (''N'', GusdGT_VtArray [(Finite False 0 0, Finite False 0 0, Finite False 1 0),
                     (Finite False 0 0, Finite False 1 0, Finite False 0 0)] GT_TYPE_NORMAL),
                  (''v'', GusdGT_VtArray [(Finite False 0 0, Finite False 0 0, Finite False 1 0),
                     (Finite False 0 0, Finite False 1 0, Finite False 0 0)] GT_TYPE_VECTOR)],
               pv_primitive = None, pv_constant = Some []\<rparr>))],
      diagnostics = []\<rparr>"
  by (simp add: refine_def Let_def isValid_def useViewportLOD_def refine_primvars_def
      refine_pointAttrs_def refine_normals_def refine_velocities_def refine_widths_def
      GetPointsAttr_def GetNormalsAttr_def GetVelocitiesAttr_def GetWidthsAttr_def Get_def
      staleWrapper_def stalePoints_def unresolvedAttr_def invalidPoints_def numeral_2_eq_2)

subsection \<open>When \<open>refine\<close> fails\<close>

text \<open>
  Claim C5. \<open>refine\<close> returns false exactly when the wrapper is invalid (neither the read
  holder nor the write schema object is valid) or the position attribute is absent; when
  it returns true the refiner has received exactly one more primitive, and when it
  returns false it has received none. The function is total: it always returns one of
  the two.
\<close>

theorem refine_fails_exactly:
  "(\<not> ret (refine fl lp w parms refiner)) =
     (\<not> isValid w \<or> GetPointsAttr (m_usdPointsForRead w) = None) \<and>
   (ret (refine fl lp w parms refiner) \<longrightarrow>
      (\<exists>prim. refined (refine fl lp w parms refiner) = refiner @ [prim])) \<and>
   (\<not> ret (refine fl lp w parms refiner) \<longrightarrow>
      refined (refine fl lp w parms refiner) = refiner)"
  by (simp add: refine_def Let_def split: option.splits)

theorem refine_fails_exactly_witness:
  "isValid readWrapper \<and> GetPointsAttr (m_usdPointsForRead readWrapper) \<noteq> None \<and>
   ret (refine ieee754 noPrimvars readWrapper None []) \<and>
   (\<exists>prim. refined (refine ieee754 noPrimvars readWrapper None []) = [prim]) \<and>
   \<not> isValid invalidWrapper \<and>
   \<not> ret (refine ieee754 noPrimvars invalidWrapper None []) \<and>
   refined (refine ieee754 noPrimvars invalidWrapper None []) = []"
  using refine_fails_exactly [of ieee754 noPrimvars readWrapper None "[]"]
    refine_fails_exactly [of ieee754 noPrimvars invalidWrapper None "[]"]
  by (simp add: readWrapper_def invalidWrapper_def examplePoints_def invalidPoints_def
      isValid_def GetPointsAttr_def)

subsection \<open>The viewport shortcut\<close>



section \<open>Properties of the write path\<close>

subsection \<open>The widths block and the calls that aim at one attribute\<close>

lemma concat_take1_drop:
  "concat (map (\<lambda>i. take (Suc 0) (drop i xs)) [0..<length xs]) = xs"
proof (induction xs)
  case Nil
  then show ?case by simp
next
  case (Cons x xs)
  have "[0..<length (x # xs)] = 0 # map Suc [0..<length xs]"
    by (simp add: upt_conv_Cons map_Suc_upt del: upt_Suc)
  then show ?case
    using Cons.IH by (simp add: comp_def del: upt_Suc)
qed

lemma fillArray_scalar:
  "getTupleSize a = Suc 0 \<Longrightarrow> fillArray a 0 (length (da_data a)) (Suc 0) = da_data a"
  by (simp add: getTupleSize_def fillArray_def concat_take1_drop)

lemma entries_scalar: "getTupleSize a = Suc 0 \<Longrightarrow> entries a = length (da_data a)"
  by (simp add: getTupleSize_def entries_def)

lemma updateFromGTPrim_widths_explicit:
  "findAttribute sourcePrim ''widths'' = Some a \<Longrightarrow>
   fst (updateFromGTPrim_widths fl sourcePrim owner) = Some a"
  by (simp add: updateFromGTPrim_widths_def Let_def)

lemma updateFromGTPrim_widths_none:
  "findAttribute sourcePrim ''widths'' = None \<Longrightarrow> findAttribute sourcePrim ''pscale'' = None \<Longrightarrow>
   fst (updateFromGTPrim_widths fl sourcePrim owner) = None"
  by (simp add: updateFromGTPrim_widths_def Let_def)

lemma updateFromGTPrim_widths_vector:
  "findAttribute sourcePrim ''widths'' = None \<Longrightarrow> findAttribute sourcePrim ''pscale'' = Some p \<Longrightarrow>
   getTupleSize p \<noteq> 1 \<Longrightarrow>
   fst (updateFromGTPrim_widths fl sourcePrim owner) = Some p"
  by (simp add: updateFromGTPrim_widths_def Let_def)

lemma updateFromGTPrim_widths_pscale:
  "findAttribute sourcePrim ''widths'' = None \<Longrightarrow> findAttribute sourcePrim ''pscale'' = Some p \<Longrightarrow>
   getTupleSize p = 1 \<Longrightarrow>
   fst (updateFromGTPrim_widths fl sourcePrim owner) =
     Some (GT_Real32Array (map (fmul fl (f_two fl)) (da_data p)) (length (da_data p)) 1)"
  by (simp add: updateFromGTPrim_widths_def Let_def fillArray_scalar entries_scalar)

lemma targets_primvars:
  "filter (targets a) (updateFromGTPrim_primvars ctxt sourcePrim) = []"
  by (simp add: updateFromGTPrim_primvars_def Let_def split: option.splits)

lemma targets_Cd:
  "filter (targets a) (updateFromGTPrim_Cd base ctxt sourcePrim) = []"
  by (simp add: updateFromGTPrim_Cd_def Let_def split: option.splits)

lemma widths_calls:
  assumes "IsValid (m_usdPointsForWrite w)"
  shows "\<exists>owner. filter (targets WidthsAttr)
           (calls (updateFromGTPrim fl base w sourcePrim houXform ctxt xformCache)) =
         [updateAttributeFromGTPrim owner ''widths''
            (fst (updateFromGTPrim_widths fl sourcePrim
               (findAttribute_owner sourcePrim ''v''
                 (findAttribute_owner sourcePrim ''N''
                   (findAttribute_owner sourcePrim ''P'' GT_OWNER_INVALID)))))
            WidthsAttr (time ctxt)]"
  using assms
  by (simp add: updateFromGTPrim_def Let_def targets_primvars targets_Cd)


subsection \<open>Point scale is doubled on write\<close>

text \<open>
  Claim C2, as the code has it. With a valid write prim, \<open>updateFromGTPrim\<close> makes exactly
  one call aimed at the widths attribute. When the source has an explicit \<open>widths\<close>
  attribute, that call carries it unscaled. When the source has no \<open>widths\<close> but a
  \<open>pscale\<close> of tuple size 1, the call carries an array of tuple size 1 with as many
  entries, whose value at every index is the product that line 359 computes in the
  arithmetic of the machine: the \<^verbatim>\<open>fpreal32\<close> 2 times the point scale at that index. For
  every finite point scale that product denotes exactly 2 times the point scale, or it
  is beyond the greatest finite value and is the infinity of the same sign. A \<open>pscale\<close>
  of another tuple size goes to the call unscaled, and with neither attribute the call
  carries a null handle.
\<close>

theorem updateFromGTPrim_widths_scaling:
  assumes "IsValid (m_usdPointsForWrite w)"
  shows "\<exists>owner houAttr.
     filter (targets WidthsAttr)
       (calls (updateFromGTPrim ieee754 base w sourcePrim houXform ctxt xformCache)) =
       [updateAttributeFromGTPrim owner ''widths'' houAttr WidthsAttr (time ctxt)] \<and>
     (\<forall>a. findAttribute sourcePrim ''widths'' = Some a \<longrightarrow> houAttr = Some a) \<and>
     (\<forall>p. findAttribute sourcePrim ''widths'' = None \<and>
          findAttribute sourcePrim ''pscale'' = Some p \<and> getTupleSize p = 1 \<longrightarrow>
          (\<exists>scaled. houAttr = Some scaled \<and> getTupleSize scaled = 1 \<and>
             entries scaled = entries p \<and>
             (\<forall>i < entries p.
                da_data scaled ! i = fp_mul binary32 (Finite False 1 1) (da_data p ! i)) \<and>
             (\<forall>i s m e. i < entries p \<and> da_data p ! i = Finite s m e \<and>
                is_binary32 (da_data p ! i) \<longrightarrow>
                da_data scaled ! i = Infinity s \<or>
                valof (da_data scaled ! i) = 2 * valof (da_data p ! i)))) \<and>
     (\<forall>p. findAttribute sourcePrim ''widths'' = None \<and>
          findAttribute sourcePrim ''pscale'' = Some p \<and> getTupleSize p \<noteq> 1 \<longrightarrow>
          houAttr = Some p) \<and>
     (findAttribute sourcePrim ''widths'' = None \<and> findAttribute sourcePrim ''pscale'' = None \<longrightarrow>
          houAttr = None)"
proof -
  let ?before = "findAttribute_owner sourcePrim ''v''
                   (findAttribute_owner sourcePrim ''N''
                     (findAttribute_owner sourcePrim ''P'' GT_OWNER_INVALID))"
  let ?h = "fst (updateFromGTPrim_widths ieee754 sourcePrim ?before)"
  let ?twice = "fmul ieee754 (f_two ieee754)"
  obtain owner where log: "filter (targets WidthsAttr)
       (calls (updateFromGTPrim ieee754 base w sourcePrim houXform ctxt xformCache)) =
       [updateAttributeFromGTPrim owner ''widths'' ?h WidthsAttr (time ctxt)]"
    using widths_calls [OF assms, of ieee754 base sourcePrim houXform ctxt xformCache] by blast
  have explicit: "\<forall>a. findAttribute sourcePrim ''widths'' = Some a \<longrightarrow> ?h = Some a"
    by (simp add: updateFromGTPrim_widths_explicit)
  have scaled: "\<exists>scaled. ?h = Some scaled \<and> getTupleSize scaled = 1 \<and>
             entries scaled = entries p \<and>
             (\<forall>i < entries p.
                da_data scaled ! i = fp_mul binary32 (Finite False 1 1) (da_data p ! i)) \<and>
             (\<forall>i s m e. i < entries p \<and> da_data p ! i = Finite s m e \<and>
                is_binary32 (da_data p ! i) \<longrightarrow>
                da_data scaled ! i = Infinity s \<or>
                valof (da_data scaled ! i) = 2 * valof (da_data p ! i))"
    if "findAttribute sourcePrim ''widths'' = None"
      and "findAttribute sourcePrim ''pscale'' = Some p" and "getTupleSize p = 1" for p
  proof -
    let ?s = "GT_Real32Array (map ?twice (da_data p)) (length (da_data p)) 1"
    from that have "?h = Some ?s"
      by (simp add: updateFromGTPrim_widths_pscale)
    moreover have "getTupleSize ?s = 1"
      by (simp add: getTupleSize_def GT_Real32Array_def)
    moreover have "entries ?s = entries p"
      using that(3) by (simp add: GT_Real32Array_def entries_def getTupleSize_def)
    moreover have nth: "da_data ?s ! i = ?twice (da_data p ! i)" if "i < entries p" for i
      using that \<open>getTupleSize p = 1\<close> by (simp add: entries_scalar GT_Real32Array_def)
    moreover have "\<forall>i < entries p.
                da_data ?s ! i = fp_mul binary32 (Finite False 1 1) (da_data p ! i)"
      using nth unfolding doubled_ieee754 by blast
    moreover have "da_data ?s ! i = Infinity s \<or>
                valof (da_data ?s ! i) = 2 * valof (da_data p ! i)"
      if "i < entries p" and "da_data p ! i = Finite s m e" and "is_binary32 (da_data p ! i)"
      for i s m e
    proof -
      from that(2,3) have "m < 2 ^ 24" "- 149 \<le> e" "e \<le> 104" by simp_all
      from doubled_exact [OF this, of s]
      have "?twice (da_data p ! i) = Infinity s \<or>
            valof (?twice (da_data p ! i)) = 2 * valof (da_data p ! i)"
        by (simp only: that(2))
      then show ?thesis
        by (simp only: nth [OF that(1)])
    qed
    ultimately show ?thesis by blast
  qed
  have vector: "\<forall>p. findAttribute sourcePrim ''widths'' = None \<and>
          findAttribute sourcePrim ''pscale'' = Some p \<and> getTupleSize p \<noteq> 1 \<longrightarrow>
          ?h = Some p"
    by (simp add: updateFromGTPrim_widths_vector)
  have none: "findAttribute sourcePrim ''widths'' = None \<and>
          findAttribute sourcePrim ''pscale'' = None \<longrightarrow> ?h = None"
    by (simp add: updateFromGTPrim_widths_none)
  from log explicit scaled vector none show ?thesis
    by blast
qed

theorem updateFromGTPrim_widths_scaling_witness:
  "IsValid (m_usdPointsForWrite writeWrapper) \<and>
   findAttribute pscalePrim ''widths'' = None \<and>
   findAttribute pscalePrim ''pscale'' = Some scalarPscale \<and>
   getTupleSize scalarPscale = 1 \<and>
   (\<exists>owner scaled.
      filter (targets WidthsAttr)
        (calls (updateFromGTPrim ieee754 exampleBase writeWrapper pscalePrim () defineCtxt ())) =
        [updateAttributeFromGTPrim owner ''widths'' (Some scaled) WidthsAttr 0] \<and>
      getTupleSize scaled = 1 \<and> entries scaled = 2 \<and>
      da_data scaled ! 0 = Finite False 1 1 \<and>
      valof (da_data scaled ! 0) = 2 * valof (Finite False 1 0) \<and>
      da_data scaled ! 1 = Finite False 3 0 \<and>
      valof (da_data scaled ! 1) = 2 * valof (Finite False 3 (- 1)))"
proof -
  have valid: "IsValid (m_usdPointsForWrite writeWrapper)"
    by (simp add: writeWrapper_def writablePoints_def)
  have no_widths: "findAttribute pscalePrim ''widths'' = None"
    and pscale: "findAttribute pscalePrim ''pscale'' = Some scalarPscale"
    by (simp_all add: pscalePrim_def)
  have scalar: "getTupleSize scalarPscale = 1" and two: "entries scalarPscale = 2"
    and data: "da_data scalarPscale = [Finite False 1 0, Finite False 3 (- 1)]"
    by (simp_all add: scalarPscale_def getTupleSize_def entries_def)
  from updateFromGTPrim_widths_scaling
         [OF valid, of exampleBase pscalePrim "()" defineCtxt "()"]
  obtain owner houAttr where
    log: "filter (targets WidthsAttr)
            (calls (updateFromGTPrim ieee754 exampleBase writeWrapper pscalePrim ()
               defineCtxt ())) =
          [updateAttributeFromGTPrim owner ''widths'' houAttr WidthsAttr (time defineCtxt)]"
    and scaling: "\<forall>p. findAttribute pscalePrim ''widths'' = None \<and>
          findAttribute pscalePrim ''pscale'' = Some p \<and> getTupleSize p = 1 \<longrightarrow>
          (\<exists>scaled. houAttr = Some scaled \<and> getTupleSize scaled = 1 \<and>
             entries scaled = entries p \<and>
             (\<forall>i < entries p.
                da_data scaled ! i = fp_mul binary32 (Finite False 1 1) (da_data p ! i)) \<and>
             (\<forall>i s m e. i < entries p \<and> da_data p ! i = Finite s m e \<and>
                is_binary32 (da_data p ! i) \<longrightarrow>
                da_data scaled ! i = Infinity s \<or>
                valof (da_data scaled ! i) = 2 * valof (da_data p ! i)))"
    by (elim exE conjE) (rule that, assumption+)
  from scaling no_widths pscale scalar obtain scaled where
    h: "houAttr = Some scaled" and shape: "getTupleSize scaled = 1" "entries scaled = entries scalarPscale"
    and vals: "\<forall>i < entries scalarPscale.
                da_data scaled ! i =
                  fp_mul binary32 (Finite False 1 1) (da_data scalarPscale ! i)"
    by blast
  from vals [rule_format, of 0] two data
  have "da_data scaled ! 0 = fmul ieee754 (f_two ieee754) (Finite False 1 0)"
    by (simp del: One_nat_def add: doubled_ieee754)
  then have v0: "da_data scaled ! 0 = Finite False 1 1"
    by (simp only: doubled_examples)
  from vals [rule_format, of 1] two data
  have "da_data scaled ! 1 = fmul ieee754 (f_two ieee754) (Finite False 3 (- 1))"
    by (simp del: One_nat_def add: doubled_ieee754)
  then have v1: "da_data scaled ! 1 = Finite False 3 0"
    by (simp only: doubled_examples)
  have e0: "valof (Finite False 1 1) = 2 * valof (Finite False 1 0)"
    and e1: "valof (Finite False 3 0) = 2 * valof (Finite False 3 (- 1))"
    by simp_all
  have t: "time defineCtxt = 0" by (simp add: defineCtxt_def)
  from log h t have "filter (targets WidthsAttr)
            (calls (updateFromGTPrim ieee754 exampleBase writeWrapper pscalePrim ()
               defineCtxt ())) =
          [updateAttributeFromGTPrim owner ''widths'' (Some scaled) WidthsAttr 0]"
    by simp
  with valid no_widths pscale scalar shape two v0 v1 e0 e1 show ?thesis
    by auto
qed

text \<open>
  The claim as first stated, without the tuple size, fails: the source below has no
  \<open>widths\<close> and a \<open>pscale\<close> of tuple size 3 whose first component is 1; the call aimed at
  the widths attribute carries that very array, first component 1, while 2 times 1 is 2.
\<close>

theorem vector_pscale_written_unscaled:
  "findAttribute vectorPscalePrim ''widths'' = None \<and>
   findAttribute vectorPscalePrim ''pscale'' = Some vectorPscale \<and>
   filter (targets WidthsAttr)
     (calls (updateFromGTPrim ieee754 exampleBase writeWrapper vectorPscalePrim ()
        defineCtxt ())) =
     [updateAttributeFromGTPrim GT_OWNER_POINT ''widths'' (Some vectorPscale) WidthsAttr 0] \<and>
   da_data vectorPscale ! 0 = Finite False 1 0 \<and>
   valof (da_data vectorPscale ! 0) = 1 \<and>
   fmul ieee754 (f_two ieee754) (da_data vectorPscale ! 0) = Finite False 1 1 \<and>
   valof (fmul ieee754 (f_two ieee754) (da_data vectorPscale ! 0)) = 2"
proof -
  have d0: "da_data vectorPscale ! 0 = Finite False 1 0"
    by (simp add: vectorPscale_def)
  have log: "findAttribute vectorPscalePrim ''widths'' = None \<and>
   findAttribute vectorPscalePrim ''pscale'' = Some vectorPscale \<and>
   filter (targets WidthsAttr)
     (calls (updateFromGTPrim ieee754 exampleBase writeWrapper vectorPscalePrim ()
        defineCtxt ())) =
     [updateAttributeFromGTPrim GT_OWNER_POINT ''widths'' (Some vectorPscale) WidthsAttr 0]"
    by (simp add: updateFromGTPrim_def Let_def targets_primvars targets_Cd
      updateFromGTPrim_widths_def vectorPscalePrim_def vectorPscale_def getTupleSize_def
      writeWrapper_def writablePoints_def defineCtxt_def)
  have "fmul ieee754 (f_two ieee754) (da_data vectorPscale ! 0) = Finite False 1 1"
    by (simp only: d0 doubled_examples)
  with d0 log show ?thesis by simp
qed

subsection \<open>Purpose, visibility and the invalid write prim\<close>

lemma purpose_calls:
  "filter (targets PurposeAttr)
     (calls (updateFromGTPrim fl base w sourcePrim houXform ctxt xformCache)) =
   (if IsValid (m_usdPointsForWrite w) \<and> \<not> getOverGeo ctxt sourcePrim \<and>
       purpose ctxt \<noteq> UsdGeomTokens_default
    then [UsdAttribute_Set PurposeAttr (purpose ctxt)] else [])"
  by (simp add: updateFromGTPrim_def Let_def targets_primvars targets_Cd)

lemma visibility_not_in_primvars:
  "updateVisibilityFromGTPrim t \<notin> set (updateFromGTPrim_primvars ctxt sourcePrim)"
  by (simp add: updateFromGTPrim_primvars_def Let_def split: option.splits)

lemma visibility_not_in_Cd:
  "updateVisibilityFromGTPrim t \<notin> set (updateFromGTPrim_Cd base ctxt sourcePrim)"
  by (simp add: updateFromGTPrim_Cd_def Let_def split: option.splits)

lemma visibility_calls:
  "(updateVisibilityFromGTPrim t \<in>
      set (calls (updateFromGTPrim fl base w sourcePrim houXform ctxt xformCache))) =
   (IsValid (m_usdPointsForWrite w) \<and> granularity ctxt = PER_FRAME \<and> t = time ctxt)"
  by (auto simp add: updateFromGTPrim_def Let_def visibility_not_in_primvars
      visibility_not_in_Cd)

text \<open>
  Claim C4, as the code has it. A call aimed at the purpose attribute is made only when
  the geometry is newly authored (the context does not ask to override it). The
  visibility update is made exactly when the write prim is valid and the granularity
  of the context is per frame, at the time of the context, whether the geometry is
  overridden or newly authored.
\<close>

theorem purpose_and_visibility_gates:
  "(filter (targets PurposeAttr)
      (calls (updateFromGTPrim fl base w sourcePrim houXform ctxt xformCache)) \<noteq> [] \<longrightarrow>
      \<not> getOverGeo ctxt sourcePrim) \<and>
   (updateVisibilityFromGTPrim t \<in>
      set (calls (updateFromGTPrim fl base w sourcePrim houXform ctxt xformCache))) =
   (IsValid (m_usdPointsForWrite w) \<and> granularity ctxt = PER_FRAME \<and> t = time ctxt)"
  by (simp add: purpose_calls visibility_calls)

theorem purpose_and_visibility_gates_witness:
  "filter (targets PurposeAttr)
      (calls (updateFromGTPrim ieee754 exampleBase writeWrapper pscalePrim () defineCtxt ())) \<noteq> [] \<and>
   \<not> getOverGeo defineCtxt pscalePrim \<and>
   IsValid (m_usdPointsForWrite writeWrapper) \<and> granularity defineCtxt = PER_FRAME \<and>
   updateVisibilityFromGTPrim 0 \<in>
      set (calls (updateFromGTPrim ieee754 exampleBase writeWrapper pscalePrim () defineCtxt ()))"
  using purpose_and_visibility_gates
    [of ieee754 exampleBase writeWrapper pscalePrim "()" defineCtxt "()" 0]
  by (simp add: purpose_calls writeWrapper_def writablePoints_def defineCtxt_def
      UsdGeomTokens_default_def)

text \<open>
  The claim as first stated fails for the visibility: in the context below the geometry
  is overridden, and with per-frame granularity the visibility update is made all the
  same.
\<close>

theorem visibility_updated_when_overriding:
  "getOverGeo overCtxt pscalePrim \<and>
   updateVisibilityFromGTPrim 0 \<in>
      set (calls (updateFromGTPrim ieee754 exampleBase writeWrapper pscalePrim () overCtxt ()))"
  by (simp add: visibility_calls overCtxt_def writeWrapper_def writablePoints_def)

text \<open>
  Claim C6. When the write prim is not valid, \<open>updateFromGTPrim\<close> returns false, makes no
  call at all into the scene description or the base class, and leaves the transform
  cache as it was.
\<close>

theorem updateFromGTPrim_invalid_write_prim:
  "\<not> IsValid (m_usdPointsForWrite w) \<Longrightarrow>
   updateFromGTPrim fl base w sourcePrim houXform ctxt xformCache =
     \<lparr>returned = False, calls = [], xformCache_out = xformCache\<rparr>"
  by (simp add: updateFromGTPrim_def)

theorem updateFromGTPrim_invalid_write_prim_witness:
  "\<not> IsValid (m_usdPointsForWrite readWrapper) \<and>
   updateFromGTPrim ieee754 exampleBase readWrapper pscalePrim () defineCtxt () =
     \<lparr>returned = False, calls = [], xformCache_out = ()\<rparr>"
  using updateFromGTPrim_invalid_write_prim
    [of readWrapper ieee754 exampleBase pscalePrim "()" defineCtxt "()"]
  by (simp add: readWrapper_def invalidPoints_def)

text \<open>
  Claim C10. The calls aimed at the purpose attribute are: the single call that sets it
  to the purpose of the context, when the write prim is valid, the geometry is newly
  authored and the purpose of the context differs from the default token; none
  otherwise, so none when the purpose of the context is the default token.
\<close>

theorem purpose_written_only_when_not_default:
  "filter (targets PurposeAttr)
     (calls (updateFromGTPrim fl base w sourcePrim houXform ctxt xformCache)) =
   (if IsValid (m_usdPointsForWrite w) \<and> \<not> getOverGeo ctxt sourcePrim \<and>
       purpose ctxt \<noteq> UsdGeomTokens_default
    then [UsdAttribute_Set PurposeAttr (purpose ctxt)] else [])"
  by (rule purpose_calls)

theorem purpose_written_only_when_not_default_witness:
  "IsValid (m_usdPointsForWrite writeWrapper) \<and>
   \<not> getOverGeo defaultPurposeCtxt pscalePrim \<and>
   purpose defaultPurposeCtxt = UsdGeomTokens_default \<and>
   filter (targets PurposeAttr)
     (calls (updateFromGTPrim ieee754 exampleBase writeWrapper pscalePrim ()
        defaultPurposeCtxt ())) = [] \<and>
   \<not> getOverGeo defineCtxt pscalePrim \<and>
   purpose defineCtxt \<noteq> UsdGeomTokens_default \<and>
   filter (targets PurposeAttr)
     (calls (updateFromGTPrim ieee754 exampleBase writeWrapper pscalePrim ()
        defineCtxt ())) = [UsdAttribute_Set PurposeAttr ''render'']"
  using purpose_written_only_when_not_default
    [of ieee754 exampleBase writeWrapper pscalePrim "()" defaultPurposeCtxt "()"]
    purpose_written_only_when_not_default
    [of ieee754 exampleBase writeWrapper pscalePrim "()" defineCtxt "()"]
  by (simp add: writeWrapper_def writablePoints_def defaultPurposeCtxt_def defineCtxt_def
      UsdGeomTokens_default_def)

subsection \<open>Redefinition\<close>

text \<open>
  Claim C9. For every stage, path, context and source primitive \<open>redefine\<close> returns true.
  The write prim it leaves is the one \<open>initUsdPrim\<close> sets, and whether that prim is valid
  is the flag of \<open>initUsdPrim\<close> that \<open>redefine\<close> drops: when defining or overriding fails,
  \<open>redefine\<close> still returns true and the wrapper has no valid write prim.
\<close>

theorem redefine_always_true:
  "fst (redefine clearCaches w stage path ctxt sourcePrim) = True \<and>
   m_usdPointsForWrite (snd (redefine clearCaches w stage path ctxt sourcePrim)) =
     m_usdPointsForWrite (snd (initUsdPrim w stage path (getOverGeo ctxt sourcePrim))) \<and>
   IsValid (m_usdPointsForWrite (snd (redefine clearCaches w stage path ctxt sourcePrim))) =
     fst (initUsdPrim w stage path (getOverGeo ctxt sourcePrim))"
  by (simp add: redefine_def initUsdPrim_def Let_def)

theorem redefine_always_true_witness:
  "fst (initUsdPrim writeWrapper failingStage ''/new'' (getOverGeo defineCtxt pscalePrim)) = False \<and>
   fst (redefine (\<lambda>k. k) writeWrapper failingStage ''/new'' defineCtxt pscalePrim) = True \<and>
   \<not> IsValid (m_usdPointsForWrite
        (snd (redefine (\<lambda>k. k) writeWrapper failingStage ''/new'' defineCtxt pscalePrim))) \<and>
   fst (initUsdPrim writeWrapper failingStage ''/new'' (getOverGeo overCtxt pscalePrim)) = False \<and>
   fst (redefine (\<lambda>k. k) writeWrapper failingStage ''/new'' overCtxt pscalePrim) = True \<and>
   \<not> IsValid (m_usdPointsForWrite
        (snd (redefine (\<lambda>k. k) writeWrapper failingStage ''/new'' overCtxt pscalePrim)))"
  using redefine_always_true [of "\<lambda>k. k" writeWrapper failingStage "''/new''" defineCtxt pscalePrim]
    redefine_always_true [of "\<lambda>k. k" writeWrapper failingStage "''/new''" overCtxt pscalePrim]
  by (simp add: initUsdPrim_def failingStage_def invalidPoints_def defineCtxt_def overCtxt_def)

subsection \<open>The pass-through filter\<close>

lemma split_blank_append:
  "split_blank cur (s @ CHR '' '' # r) = split_blank cur s @ split_blank [] r"
  by (induction s arbitrary: cur) simp_all

lemma multiMatch_append:
  "multiMatch name (s @ CHR '' '' # r) =
     foldl (multiMatch_step name) (multiMatch name s) (pattern_tokens r)"
  by (simp only: multiMatch_def pattern_tokens_def split_blank_append foldl_append)

lemma point_tokens:
  "pattern_tokens ''^P ^N ^v ^widths ^pscale ^visible ^usdactive'' =
     [''^P'', ''^N'', ''^v'', ''^widths'', ''^pscale'', ''^visible'', ''^usdactive'']"
  by (simp add: pattern_tokens_def)

lemma constant_tokens:
  "pattern_tokens ''^visible ^usdactive'' = [''^visible'', ''^usdactive'']"
  by (simp add: pattern_tokens_def)

lemma point_exclusions:
  assumes "name \<in> {''P'', ''N'', ''v'', ''widths'', ''pscale'', ''visible'', ''usdactive''}"
  shows "\<not> multiMatch name
             (s @ CHR '' '' # ''^P ^N ^v ^widths ^pscale ^visible ^usdactive'')"
proof -
  have "multiMatch name (s @ CHR '' '' # ''^P ^N ^v ^widths ^pscale ^visible ^usdactive'') =
          foldl (multiMatch_step name) (multiMatch name s)
            [''^P'', ''^N'', ''^v'', ''^widths'', ''^pscale'', ''^visible'', ''^usdactive'']"
    by (simp only: multiMatch_append point_tokens)
  with assms show ?thesis
    by (auto simp add: multiMatch_step_def)
qed

lemma constant_exclusions:
  assumes "name \<in> {''visible'', ''usdactive''}"
  shows "\<not> multiMatch name (s @ CHR '' '' # ''^visible ^usdactive'')"
proof -
  have "multiMatch name (s @ CHR '' '' # ''^visible ^usdactive'') =
          foldl (multiMatch_step name) (multiMatch name s) [''^visible'', ''^usdactive'']"
    by (simp only: multiMatch_append constant_tokens)
  with assms show ?thesis
    by (auto simp add: multiMatch_step_def)
qed

lemma primvars_calls:
  assumes "updatePrimvarFromGTPrim attrs f interp t \<in> set (updateFromGTPrim_primvars ctxt sourcePrim)"
  shows "(interp = UsdGeomTokens_vertex \<and>
          (\<forall>name. matches f name =
             multiMatch name (m_patterns (attributeFilter ctxt) GT_OWNER_POINT @
               CHR '' '' # ''^P ^N ^v ^widths ^pscale ^visible ^usdactive''))) \<or>
         (interp = UsdGeomTokens_constant \<and>
          (\<forall>name. matches f name =
             multiMatch name (m_patterns (attributeFilter ctxt) GT_OWNER_CONSTANT @
               CHR '' '' # ''^visible ^usdactive'')))"
  using assms
  by (auto simp add: updateFromGTPrim_primvars_def Let_def matches_def setActiveOwners_def
      appendPattern_def split: option.splits)

lemma Cd_calls:
  assumes "updatePrimvarFromGTPrim attrs f interp t \<in> set (updateFromGTPrim_Cd base ctxt sourcePrim)"
  shows "map fst attrs = [''displayColor'']"
  using assms
  by (auto simp add: updateFromGTPrim_Cd_def Let_def split: option.splits)

lemma primvar_calls_of_update:
  fixes c :: "('f, 't, 'm) usd_call"
  assumes "c = updatePrimvarFromGTPrim attrs f interp t"
    and "c \<in> set (calls (updateFromGTPrim fl base w sourcePrim houXform ctxt xformCache))"
  shows "c \<in> set (updateFromGTPrim_primvars ctxt sourcePrim) \<or>
         c \<in> set (updateFromGTPrim_Cd base ctxt sourcePrim)"
  using assms
  by (auto simp add: updateFromGTPrim_def Let_def split: if_splits)

text \<open>
  Claim C8, as the code has it. Take any call of the primvar pass-through in the log of
  \<open>updateFromGTPrim\<close>, with its attribute list and its filter. At point scope
  (interpolation \<open>vertex\<close>) none of the names \<open>P\<close>, \<open>N\<close>, \<open>v\<close>, \<open>widths\<close>, \<open>pscale\<close>, \<open>visible\<close>,
  \<open>usdactive\<close> is among the primvar names the call writes; at constant scope neither
  \<open>visible\<close> nor \<open>usdactive\<close> is. This holds whatever patterns the filter of the context
  starts from. The names \<open>P\<close>, \<open>N\<close>, \<open>v\<close>, \<open>widths\<close>, \<open>pscale\<close> are not excluded at constant
  scope.
\<close>

theorem reserved_names_not_passed_through:
  fixes base :: "('f, 't, 'm, 'c) GusdPrimWrapper"
  assumes "updatePrimvarFromGTPrim attrs f interp t \<in>
             set (calls (updateFromGTPrim fl base w sourcePrim houXform ctxt xformCache))"
  shows "(interp = UsdGeomTokens_vertex \<longrightarrow>
            set (primvarNamesWritten attrs f) \<inter>
              {''P'', ''N'', ''v'', ''widths'', ''pscale'', ''visible'', ''usdactive''} = {}) \<and>
         (interp = UsdGeomTokens_constant \<longrightarrow>
            set (primvarNamesWritten attrs f) \<inter> {''visible'', ''usdactive''} = {})"
proof -
  let ?c = "updatePrimvarFromGTPrim attrs f interp t :: ('f, 't, 'm) usd_call"
  consider (pass) "?c \<in> set (updateFromGTPrim_primvars ctxt sourcePrim)"
    | (colour) "?c \<in> set (updateFromGTPrim_Cd base ctxt sourcePrim)"
    using primvar_calls_of_update [OF refl assms] by blast
  then show ?thesis
  proof cases
    case pass
    have distinct_tokens: "UsdGeomTokens_vertex \<noteq> UsdGeomTokens_constant"
      by (simp add: UsdGeomTokens_vertex_def UsdGeomTokens_constant_def)
    from primvars_calls [OF pass] show ?thesis
    proof
      assume pt: "interp = UsdGeomTokens_vertex \<and>
          (\<forall>name. matches f name =
             multiMatch name (m_patterns (attributeFilter ctxt) GT_OWNER_POINT @
               CHR '' '' # ''^P ^N ^v ^widths ^pscale ^visible ^usdactive''))"
      then have "\<not> matches f name"
        if "name \<in> {''P'', ''N'', ''v'', ''widths'', ''pscale'', ''visible'', ''usdactive''}"
        for name
        using point_exclusions [OF that] by simp
      then have "set (primvarNamesWritten attrs f) \<inter>
              {''P'', ''N'', ''v'', ''widths'', ''pscale'', ''visible'', ''usdactive''} = {}"
        unfolding primvarNamesWritten_def by auto
      with pt distinct_tokens show ?thesis by simp
    next
      assume ct: "interp = UsdGeomTokens_constant \<and>
          (\<forall>name. matches f name =
             multiMatch name (m_patterns (attributeFilter ctxt) GT_OWNER_CONSTANT @
               CHR '' '' # ''^visible ^usdactive''))"
      then have "\<not> matches f name" if "name \<in> {''visible'', ''usdactive''}" for name
        using constant_exclusions [OF that] by simp
      then have "set (primvarNamesWritten attrs f) \<inter> {''visible'', ''usdactive''} = {}"
        unfolding primvarNamesWritten_def by auto
      with ct distinct_tokens show ?thesis by simp
    qed
  next
    case colour
    have "set (primvarNamesWritten attrs f) \<subseteq> set (map fst attrs)"
      unfolding primvarNamesWritten_def by auto
    with Cd_calls [OF colour] show ?thesis by auto
  qed
qed

theorem reserved_names_not_passed_through_witness:
  "updatePrimvarFromGTPrim
     [(''P'', positions), (''pscale'', scalarPscale), (''id'', scalarPscale)]
     (setActiveOwners [GT_OWNER_POINT]
        (appendPattern GT_OWNER_CONSTANT ''^visible ^usdactive''
           (appendPattern GT_OWNER_POINT ''^P ^N ^v ^widths ^pscale ^visible ^usdactive''
              matchAll)))
     ''vertex'' 0
     \<in> set (calls (updateFromGTPrim ieee754 exampleBase writeWrapper pscalePrim () defineCtxt ())) \<and>
   set (primvarNamesWritten
     [(''P'', positions), (''pscale'', scalarPscale), (''id'', scalarPscale)]
     (setActiveOwners [GT_OWNER_POINT]
        (appendPattern GT_OWNER_CONSTANT ''^visible ^usdactive''
           (appendPattern GT_OWNER_POINT ''^P ^N ^v ^widths ^pscale ^visible ^usdactive''
              matchAll)))) \<inter>
     {''P'', ''N'', ''v'', ''widths'', ''pscale'', ''visible'', ''usdactive''} = {} \<and>
   updatePrimvarFromGTPrim
     [(''usdactive'', flag), (''shop'', flag)]
     (setActiveOwners [GT_OWNER_CONSTANT] (setActiveOwners [GT_OWNER_POINT]
        (appendPattern GT_OWNER_CONSTANT ''^visible ^usdactive''
           (appendPattern GT_OWNER_POINT ''^P ^N ^v ^widths ^pscale ^visible ^usdactive''
              matchAll))))
     ''constant'' 0
     \<in> set (calls (updateFromGTPrim ieee754 exampleBase writeWrapper pscalePrim () defineCtxt ())) \<and>
   set (primvarNamesWritten
     [(''usdactive'', flag), (''shop'', flag)]
     (setActiveOwners [GT_OWNER_CONSTANT] (setActiveOwners [GT_OWNER_POINT]
        (appendPattern GT_OWNER_CONSTANT ''^visible ^usdactive''
           (appendPattern GT_OWNER_POINT ''^P ^N ^v ^widths ^pscale ^visible ^usdactive''
              matchAll))))) \<inter>
     {''visible'', ''usdactive''} = {}"
proof -
  let ?f2 = "appendPattern GT_OWNER_CONSTANT ''^visible ^usdactive''
           (appendPattern GT_OWNER_POINT ''^P ^N ^v ^widths ^pscale ^visible ^usdactive''
              matchAll)"
  let ?pa = "[(''P'', positions), (''pscale'', scalarPscale), (''id'', scalarPscale)]"
  let ?da = "[(''usdactive'', flag), (''shop'', flag)]"
  let ?log = "calls (updateFromGTPrim ieee754 exampleBase writeWrapper pscalePrim () defineCtxt ())"
  have p: "updatePrimvarFromGTPrim ?pa (setActiveOwners [GT_OWNER_POINT] ?f2) ''vertex'' 0
             \<in> set ?log"
    by (simp add: updateFromGTPrim_def Let_def updateFromGTPrim_primvars_def writeWrapper_def
        writablePoints_def defineCtxt_def pscalePrim_def UsdGeomTokens_vertex_def)
  have c: "updatePrimvarFromGTPrim ?da
             (setActiveOwners [GT_OWNER_CONSTANT] (setActiveOwners [GT_OWNER_POINT] ?f2))
             ''constant'' 0 \<in> set ?log"
    by (simp add: updateFromGTPrim_def Let_def updateFromGTPrim_primvars_def writeWrapper_def
        writablePoints_def defineCtxt_def pscalePrim_def UsdGeomTokens_constant_def)
  from reserved_names_not_passed_through [OF p] reserved_names_not_passed_through [OF c] p c
  show ?thesis
    by (simp add: UsdGeomTokens_vertex_def UsdGeomTokens_constant_def)
qed

text \<open>
  The claim as first stated, that none of the reserved names is ever written again by the
  pass-through, fails at constant scope. The source below has its scalar \<open>pscale\<close> as a
  detail attribute and no \<open>widths\<close>, and the filter of the context matches every name. The
  doubled \<open>pscale\<close> goes to the widths attribute, and the pass-through of the detail
  attributes writes \<open>pscale\<close> once more as a primvar: line 373 excludes only \<open>visible\<close> and
  \<open>usdactive\<close> for the constant owner.
\<close>

theorem detail_pscale_passed_through:
  "findAttribute detailPscalePrim ''widths'' = None \<and>
   findAttribute detailPscalePrim ''pscale'' = Some scalarPscale \<and>
   filter (targets WidthsAttr)
     (calls (updateFromGTPrim ieee754 exampleBase writeWrapper detailPscalePrim ()
        defineCtxt ())) =
     [updateAttributeFromGTPrim GT_OWNER_CONSTANT ''widths''
        (Some (GT_Real32Array [Finite False 1 1, Finite False 3 0] 2 1)) WidthsAttr 0] \<and>
   updatePrimvarFromGTPrim [(''pscale'', scalarPscale)]
     (setActiveOwners [GT_OWNER_CONSTANT] (setActiveOwners [GT_OWNER_POINT]
        (appendPattern GT_OWNER_CONSTANT ''^visible ^usdactive''
           (appendPattern GT_OWNER_POINT ''^P ^N ^v ^widths ^pscale ^visible ^usdactive''
              matchAll))))
     UsdGeomTokens_constant 0
     \<in> set (calls (updateFromGTPrim ieee754 exampleBase writeWrapper detailPscalePrim ()
                 defineCtxt ())) \<and>
   primvarNamesWritten [(''pscale'', scalarPscale)]
     (setActiveOwners [GT_OWNER_CONSTANT] (setActiveOwners [GT_OWNER_POINT]
        (appendPattern GT_OWNER_CONSTANT ''^visible ^usdactive''
           (appendPattern GT_OWNER_POINT ''^P ^N ^v ^widths ^pscale ^visible ^usdactive''
              matchAll)))) = [''pscale'']"
proof -
  have found: "findAttribute detailPscalePrim ''widths'' = None"
    "findAttribute detailPscalePrim ''pscale'' = Some scalarPscale"
    by (simp_all add: detailPscalePrim_def)
  have twice: "map (fmul ieee754 (f_two ieee754)) (da_data scalarPscale) =
                 [Finite False 1 1, Finite False 3 0]"
    by (simp del: One_nat_def add: scalarPscale_def doubled_examples)
  have scalar: "getTupleSize scalarPscale = Suc 0" "length (da_data scalarPscale) = 2"
    by (simp_all add: scalarPscale_def getTupleSize_def)
  have "fst (updateFromGTPrim_widths ieee754 detailPscalePrim owner) =
          Some (GT_Real32Array [Finite False 1 1, Finite False 3 0] 2 1)" for owner
    using updateFromGTPrim_widths_pscale [OF found, of ieee754 owner] scalar twice
    by simp
  moreover have "snd (updateFromGTPrim_widths ieee754 detailPscalePrim owner) =
          GT_OWNER_CONSTANT" for owner
    by (simp add: updateFromGTPrim_widths_def Let_def detailPscalePrim_def
        split: option.splits)
  ultimately have widths: "filter (targets WidthsAttr)
     (calls (updateFromGTPrim ieee754 exampleBase writeWrapper detailPscalePrim ()
        defineCtxt ())) =
     [updateAttributeFromGTPrim GT_OWNER_CONSTANT ''widths''
        (Some (GT_Real32Array [Finite False 1 1, Finite False 3 0] 2 1)) WidthsAttr 0]"
    by (simp add: updateFromGTPrim_def Let_def targets_primvars targets_Cd
        writeWrapper_def writablePoints_def defineCtxt_def)
  have passed: "updatePrimvarFromGTPrim [(''pscale'', scalarPscale)]
     (setActiveOwners [GT_OWNER_CONSTANT] (setActiveOwners [GT_OWNER_POINT]
        (appendPattern GT_OWNER_CONSTANT ''^visible ^usdactive''
           (appendPattern GT_OWNER_POINT ''^P ^N ^v ^widths ^pscale ^visible ^usdactive''
              matchAll))))
     UsdGeomTokens_constant 0
     \<in> set (calls (updateFromGTPrim ieee754 exampleBase writeWrapper detailPscalePrim ()
                 defineCtxt ()))"
    by (simp add: updateFromGTPrim_def Let_def updateFromGTPrim_primvars_def writeWrapper_def
        writablePoints_def defineCtxt_def detailPscalePrim_def)
  have written: "primvarNamesWritten [(''pscale'', scalarPscale)]
     (setActiveOwners [GT_OWNER_CONSTANT] (setActiveOwners [GT_OWNER_POINT]
        (appendPattern GT_OWNER_CONSTANT ''^visible ^usdactive''
           (appendPattern GT_OWNER_POINT ''^P ^N ^v ^widths ^pscale ^visible ^usdactive''
              matchAll)))) = [''pscale'']"
    by (simp add: primvarNamesWritten_def matches_def setActiveOwners_def appendPattern_def
        matchAll_def multiMatch_def pattern_tokens_def multiMatch_step_def)
  from found widths passed written show ?thesis
    by blast
qed

end
